theory Spec2Isabelle
  imports Main
begin

section \<open>The registry document\<close>

text \<open>
  The registry is the JSON document \<^verbatim>\<open>models/global_registry.json\<close>. Keys the code
  indexes directly (\<^verbatim>\<open>model['id']\<close>, \<^verbatim>\<open>model['source']['author']\<close>, ...) are plain
  fields: a record without them raises \<^verbatim>\<open>KeyError\<close> and is outside this model. Keys the
  code reads with \<^verbatim>\<open>.get(key, default)\<close> are optional fields. A JSON \<^verbatim>\<open>null\<close> stored
  under an optional key is not modelled.
\<close>

record source =
  s_platform :: string
  s_author :: string
  s_repository :: string
  s_branch :: "string option"
  s_release :: "string option"

record file_lists =
  required :: "string list option"
  optional :: "string list option"

record status =
  downloaded :: "bool option"
  verified :: "bool option"
  download_date :: "string option"

record specs =
  size_mb :: "int option"

record model =
  m_id :: string
  m_name :: string
  m_type :: "string option"
  m_source :: source
  m_local_path :: string
  m_files :: "file_lists option"
  m_status :: "status option"
  m_specs :: "specs option"

record statistics =
  total_models :: int
  by_type :: "(string \<times> int) list"
  by_source :: "(string \<times> int) list"
  downloaded_models :: int
  pending_models :: int
  total_size_mb :: int

record registry =
  models :: "model list"
  stats :: "statistics option"
  last_updated :: "string option"

text \<open>Python exceptions that the two tools raise or catch.\<close>

datatype exn =
  HTTPError nat
  | RequestException string
  | OSError string
  | ValueError string
  | KeyError string

text \<open>\<^verbatim>\<open>d.get(key, default)\<close> on an optional field.\<close>

definition get_or :: "'a option \<Rightarrow> 'a \<Rightarrow> 'a" where
  "get_or v d = (case v of None \<Rightarrow> d | Some x \<Rightarrow> x)"

section \<open>Source URL resolution\<close>

text \<open>\<^verbatim>\<open>ModelDownloader._get_download_url\<close> (sync_registry_models.py, lines 75-111).\<close>

definition md_get_download_url :: "model \<Rightarrow> string \<Rightarrow> exn + string" where
  "md_get_download_url mdl file_path =
     (let platform = s_platform (m_source mdl) in
      if platform = ''huggingface'' then
        (let repo = s_author (m_source mdl) @ ''/'' @ s_repository (m_source mdl)
         in Inr (''https://huggingface.co/'' @ repo @ ''/resolve/main/'' @ file_path))
      else if platform = ''github'' then
        (let author = s_author (m_source mdl);
             repo = s_repository (m_source mdl);
             branch = get_or (s_branch (m_source mdl)) ''main''
         in if repo = ''openWakeWord'' then
              (let release = get_or (s_release (m_source mdl)) ''latest''
               in if release \<noteq> ''latest'' then
                    Inr (''https://github.com/'' @ author @ ''/'' @ repo
                           @ ''/releases/download/'' @ release @ ''/'' @ file_path)
                  else
                    Inr (''https://github.com/'' @ author @ ''/'' @ repo
                           @ ''/raw/'' @ branch @ ''/models/'' @ file_path))
            else
              Inr (''https://raw.githubusercontent.com/'' @ author @ ''/'' @ repo
                     @ ''/'' @ branch @ ''/'' @ file_path))
      else Inl (ValueError (''Unsupported platform: '' @ platform)))"

text \<open>\<^verbatim>\<open>HFModelDownloader.build_file_url\<close> (add_new_model.py, lines 202-204); every caller
  in the repository leaves \<^verbatim>\<open>branch\<close> at its default \<^verbatim>\<open>'main'\<close>.\<close>

definition build_file_url :: "string \<Rightarrow> string \<Rightarrow> string \<Rightarrow> string \<Rightarrow> string" where
  "build_file_url owner mdl_name file_path branch =
     ''https://huggingface.co/'' @ owner @ ''/'' @ mdl_name @ ''/resolve/'' @ branch
       @ ''/'' @ file_path"

text \<open>The resolved Hugging Face URL as the specification words it: the branch segment is
  the record's \<^verbatim>\<open>branch\<close> field, \<^verbatim>\<open>main\<close> when unset.\<close>

definition spec_huggingface_url :: "model \<Rightarrow> string \<Rightarrow> string" where
  "spec_huggingface_url mdl f =
     ''https://huggingface.co/'' @ s_author (m_source mdl) @ ''/''
       @ s_repository (m_source mdl) @ ''/resolve/''
       @ get_or (s_branch (m_source mdl)) ''main'' @ ''/'' @ f"

text \<open>The base name of a relative path (the text after its last slash), and the
  release-asset URL as the specification words it ("that tag and the file's base name").\<close>

definition base_name :: "string \<Rightarrow> string" where
  "base_name p = rev (takeWhile (\<lambda>c. c \<noteq> CHR ''/'') (rev p))"

definition spec_release_asset_url :: "model \<Rightarrow> string \<Rightarrow> string" where
  "spec_release_asset_url mdl f =
     ''https://github.com/'' @ s_author (m_source mdl) @ ''/''
       @ s_repository (m_source mdl) @ ''/releases/download/''
       @ get_or (s_release (m_source mdl)) ''latest'' @ ''/'' @ base_name f"

text \<open>Concrete registry records used as test inputs.\<close>

definition hf_dev_model :: model where
  "hf_dev_model =
     \<lparr> m_id = ''whisper-tiny'', m_name = ''Whisper Tiny'', m_type = Some ''asr'',
       m_source = \<lparr> s_platform = ''huggingface'', s_author = ''Xenova'',
                    s_repository = ''whisper-tiny'', s_branch = Some ''dev'',
                    s_release = None \<rparr>,
       m_local_path = ''huggingface/Xenova/whisper-tiny'',
       m_files = Some \<lparr> required = Some [''config.json'', ''tokenizer.json''],
                         optional = Some [''normalizer.json''] \<rparr>,
       m_status = Some \<lparr> downloaded = Some False, verified = Some False,
                          download_date = None \<rparr>,
       m_specs = Some \<lparr> size_mb = Some 39 \<rparr> \<rparr>"

definition oww_model :: model where
  "oww_model =
     \<lparr> m_id = ''hey-jarvis'', m_name = ''Hey Jarvis'', m_type = Some ''wakeword'',
       m_source = \<lparr> s_platform = ''github'', s_author = ''dscripka'',
                    s_repository = ''openWakeWord'', s_branch = None,
                    s_release = Some ''v0.5.1'' \<rparr>,
       m_local_path = ''github/dscripka/openWakeWord'',
       m_files = Some \<lparr> required = Some [''onnx/hey_jarvis_v0.1.onnx''],
                         optional = None \<rparr>,
       m_status = None,
       m_specs = None \<rparr>"

section \<open>The environment of a run\<close>

text \<open>
  What a run cannot decide is a parameter. \<^verbatim>\<open>remote\<close> is what \<^verbatim>\<open>requests.get\<close> meets
  for a URL and the headers sent: a connection failure or timeout (a
  \<^verbatim>\<open>RequestException\<close> with its text), or a response. A response carries its status code,
  its \<^verbatim>\<open>content-length\<close> header (absent, an integer, or text on which \<^verbatim>\<open>int()\<close> raises
  \<^verbatim>\<open>ValueError\<close>), the chunks \<^verbatim>\<open>iter_content\<close> yields, and the text of the
  \<^verbatim>\<open>RequestException\<close> that ends the stream after those chunks, if one does.
  \<^verbatim>\<open>fault\<close> says what the disk does at a path: \<^verbatim>\<open>mkdir\<close> of its parent raises,
  \<^verbatim>\<open>open\<close> raises, or the \<^verbatim>\<open>write\<close> call with the given index (from 0) raises after the
  earlier chunks were written. \<^verbatim>\<open>unlink\<close> is taken to succeed. The progress bar only
  observes and is left out. \<^verbatim>\<open>max_workers\<close> is the \<^verbatim>\<open>--workers\<close> argument, and
  \<^verbatim>\<open>finish_time i\<close> is the moment the future submitted as number \<^verbatim>\<open>i\<close> (from 0) completes:
  every order in which futures can complete is the order of some \<^verbatim>\<open>finish_time\<close>.
\<close>

datatype clen = NoLength | Length int | BadLength

record response =
  status_code :: nat
  content_length :: clen
  chunks :: "string list"
  stream_error :: "string option"

datatype net_result = ConnError string | Response response

datatype disk_fault = NoFault | MkdirFails | OpenFails | WriteFailsAt nat

type_synonym headers = "(string \<times> string) list"

record env =
  hf_token :: "string option"
  remote :: "string \<Rightarrow> headers \<Rightarrow> net_result"
  fault :: "string \<Rightarrow> disk_fault"
  today :: string
  models_dir :: string
  max_workers :: int
  finish_time :: "nat \<Rightarrow> nat"

text \<open>
  The state a run reads and writes: \<^verbatim>\<open>self.registry\<close> in memory, the document last
  written to \<^verbatim>\<open>registry_path\<close>, the regular files on disk with their contents, and the
  log of HTTP requests issued (URL and headers), oldest first.
\<close>

record state =
  reg :: registry
  saved :: "registry option"
  fs :: "string \<rightharpoonup> string"
  net_log :: "(string \<times> headers) list"

section \<open>Fetching one file\<close>

text \<open>Python's \<^verbatim>\<open>needle in haystack\<close> on strings.\<close>

fun str_in :: "string \<Rightarrow> string \<Rightarrow> bool" where
  "str_in needle [] = (needle = [])"
| "str_in needle (c # cs) = (take (length needle) (c # cs) = needle \<or> str_in needle cs)"

text \<open>The first lines of both fetchers (sync_registry_models.py 126-128, add_new_model.py
  161-163): \<^verbatim>\<open>if self.hf_token and 'huggingface.co' in url\<close>. An empty token is falsy.\<close>

definition request_headers :: "string option \<Rightarrow> string \<Rightarrow> headers" where
  "request_headers tok url =
     (case tok of
        None \<Rightarrow> []
      | Some t \<Rightarrow>
          if t \<noteq> [] \<and> str_in ''huggingface.co'' url
          then [(''Authorization'', ''Bearer '' @ t)] else [])"

text \<open>\<^verbatim>\<open>response.raise_for_status()\<close> of the requests library: \<^verbatim>\<open>HTTPError\<close> for a status
  from 400 to 599, nothing otherwise.\<close>

definition raise_for_status :: "response \<Rightarrow> exn option" where
  "raise_for_status r =
     (if 400 \<le> status_code r \<and> status_code r < 600
      then Some (HTTPError (status_code r)) else None)"

text \<open>\<^verbatim>\<open>HTTPError\<close> is a subclass of \<^verbatim>\<open>requests.exceptions.RequestException\<close>.\<close>

fun is_request_exception :: "exn \<Rightarrow> bool" where
  "is_request_exception (HTTPError c) = True"
| "is_request_exception (RequestException t) = True"
| "is_request_exception (OSError t) = False"
| "is_request_exception (ValueError t) = False"
| "is_request_exception (KeyError t) = False"

text \<open>The loop \<^verbatim>\<open>for chunk in response.iter_content(...): f.write(chunk)\<close>, with the guard
  \<^verbatim>\<open>if chunk:\<close> when \<^verbatim>\<open>skip_empty\<close> holds. It returns what the file holds when the loop
  ends and the exception that ended it, if any.\<close>

fun write_chunks ::
  "disk_fault \<Rightarrow> bool \<Rightarrow> nat \<Rightarrow> string \<Rightarrow> string list \<Rightarrow> string \<times> exn option" where
  "write_chunks flt skip_empty i acc [] = (acc, None)"
| "write_chunks flt skip_empty i acc (c # cs) =
     (if skip_empty \<and> c = [] then write_chunks flt skip_empty i acc cs
      else if flt = WriteFailsAt i then (acc, Some (OSError ''write failed''))
      else write_chunks flt skip_empty (Suc i) (acc @ c) cs)"

text \<open>\<^verbatim>\<open>with open(dest_path, 'wb') as f:\<close> around that loop: a failing \<^verbatim>\<open>open\<close> creates
  nothing; otherwise the file exists from then on, truncated, and keeps what was
  written when the loop or the stream fails.\<close>

definition stream_to_file ::
  "env \<Rightarrow> string \<Rightarrow> response \<Rightarrow> bool \<Rightarrow> (string \<rightharpoonup> string)
     \<Rightarrow> (string \<rightharpoonup> string) \<times> exn option" where
  "stream_to_file e dest r skip_empty files =
     (if fault e dest = OpenFails then (files, Some (OSError ''open failed''))
      else
        (case write_chunks (fault e dest) skip_empty 0 [] (chunks r) of
           (content, Some ex) \<Rightarrow> (files(dest \<mapsto> content), Some ex)
         | (content, None) \<Rightarrow>
             (files(dest \<mapsto> content), map_option RequestException (stream_error r))))"

text \<open>The message half of \<^verbatim>\<open>_download_file\<close>'s result; the string is \<^verbatim>\<open>dest_path.name\<close>.\<close>

datatype message =
  AlreadyExists string
  | Downloaded string
  | FailedToDownload string exn
  | ErrorDownloading string exn

text \<open>The two \<^verbatim>\<open>except\<close> clauses of \<^verbatim>\<open>_download_file\<close> (sync_registry_models.py,
  lines 156-164): remove the destination if it exists, return \<^verbatim>\<open>False\<close> with a message.\<close>

definition md_except :: "state \<Rightarrow> string \<Rightarrow> exn \<Rightarrow> (bool \<times> message) \<times> state" where
  "md_except st dest ex =
     ((False,
       if is_request_exception ex then FailedToDownload (base_name dest) ex
       else ErrorDownloading (base_name dest) ex),
      st\<lparr>fs := (fs st)(dest := None)\<rparr>)"

text \<open>\<^verbatim>\<open>ModelDownloader._download_file\<close> (sync_registry_models.py, lines 113-164).\<close>

definition md_download_file ::
  "env \<Rightarrow> state \<Rightarrow> string \<Rightarrow> string \<Rightarrow> (bool \<times> message) \<times> state" where
  "md_download_file e st url dest =
     (let hdrs = request_headers (hf_token e) url in
      if fault e dest = MkdirFails then md_except st dest (OSError ''mkdir failed'')
      else if fs st dest \<noteq> None then ((True, AlreadyExists (base_name dest)), st)
      else
        (let st1 = st\<lparr>net_log := net_log st @ [(url, hdrs)]\<rparr> in
         case remote e url hdrs of
           ConnError t \<Rightarrow> md_except st1 dest (RequestException t)
         | Response r \<Rightarrow>
             (case raise_for_status r of
                Some ex \<Rightarrow> md_except st1 dest ex
              | None \<Rightarrow>
                  if content_length r = BadLength
                  then md_except st1 dest (ValueError ''content-length'')
                  else
                    (case stream_to_file e dest r True (fs st1) of
                       (files, Some ex) \<Rightarrow> md_except (st1\<lparr>fs := files\<rparr>) dest ex
                     | (files, None) \<Rightarrow>
                         ((True, Downloaded (base_name dest)), st1\<lparr>fs := files\<rparr>)))))"

text \<open>What \<^verbatim>\<open>HFModelDownloader.download_file\<close> prints; the string is
  \<^verbatim>\<open>dest_path.name\<close>.\<close>

datatype console =
  PrintOk string
  | PrintNotFound string
  | PrintHttp string nat
  | PrintError string exn

text \<open>The two \<^verbatim>\<open>except\<close> clauses of \<^verbatim>\<open>download_file\<close> (add_new_model.py, lines
  191-200): they print and return \<^verbatim>\<open>False\<close>; neither touches the destination.\<close>

fun hf_except :: "bool \<Rightarrow> string \<Rightarrow> exn \<Rightarrow> console list" where
  "hf_except show_progress dest (HTTPError code) =
     (if code = 404 then (if \<not> show_progress then [PrintNotFound (base_name dest)] else [])
      else [PrintHttp (base_name dest) code])"
| "hf_except show_progress dest ex = [PrintError (base_name dest) ex]"

text \<open>\<^verbatim>\<open>HFModelDownloader.download_file\<close> (add_new_model.py, lines 159-200).\<close>

definition hf_download_file ::
  "env \<Rightarrow> state \<Rightarrow> string \<Rightarrow> string \<Rightarrow> bool \<Rightarrow> (bool \<times> console list) \<times> state" where
  "hf_download_file e st url dest show_progress =
     (let hdrs = request_headers (hf_token e) url;
          st1 = st\<lparr>net_log := net_log st @ [(url, hdrs)]\<rparr> in
      case remote e url hdrs of
        ConnError t \<Rightarrow> ((False, hf_except show_progress dest (RequestException t)), st1)
      | Response r \<Rightarrow>
          (case raise_for_status r of
             Some ex \<Rightarrow> ((False, hf_except show_progress dest ex), st1)
           | None \<Rightarrow>
               if fault e dest = MkdirFails
               then ((False, hf_except show_progress dest (OSError ''mkdir failed'')), st1)
               else if content_length r = BadLength
               then ((False, hf_except show_progress dest (ValueError ''content-length'')),
                     st1)
               else
                 (let total_size = (case content_length r of Length n \<Rightarrow> n | _ \<Rightarrow> 0);
                      with_bar = (show_progress \<and> total_size > 0) in
                  case stream_to_file e dest r with_bar (fs st1) of
                    (files, Some ex) \<Rightarrow>
                      ((False, hf_except show_progress dest ex), st1\<lparr>fs := files\<rparr>)
                  | (files, None) \<Rightarrow>
                      ((True,
                        if \<not> with_bar \<and> \<not> show_progress then [PrintOk (base_name dest)]
                        else []),
                       st1\<lparr>fs := files\<rparr>))))"

section \<open>Synchronising one model\<close>

text \<open>\<^verbatim>\<open>model.get('status', {}).get('downloaded', False)\<close>, read as a truth value.\<close>

definition is_downloaded :: "model \<Rightarrow> bool" where
  "is_downloaded m =
     (case m_status m of None \<Rightarrow> False | Some s \<Rightarrow> get_or (downloaded s) False)"

text \<open>\<^verbatim>\<open>next((m for m in self.registry['models'] if m['id'] == model_id), None)\<close>.\<close>

definition find_model :: "model list \<Rightarrow> string \<Rightarrow> model option" where
  "find_model ms model_id = find (\<lambda>m. m_id m = model_id) ms"

text \<open>The record that lookup returns is a dictionary inside the list, and the code
  mutates it in place: the first element that satisfies the test is the one that changes.\<close>

fun update_first :: "('a \<Rightarrow> bool) \<Rightarrow> ('a \<Rightarrow> 'a) \<Rightarrow> 'a list \<Rightarrow> 'a list" where
  "update_first P f [] = []"
| "update_first P f (x # xs) = (if P x then f x # xs else x # update_first P f xs)"

text \<open>\<^verbatim>\<open>base / part\<close> of pathlib, without its normalisation of slashes and dots: an
  absolute right operand replaces the left one.\<close>

definition path_join :: "string \<Rightarrow> string \<Rightarrow> string" where
  "path_join base part =
     (if part \<noteq> [] \<and> hd part = CHR ''/'' then part else base @ ''/'' @ part)"

text \<open>The list \<^verbatim>\<open>files_to_download\<close> (sync_registry_models.py, lines 198-210): every
  required file tagged \<^verbatim>\<open>True\<close>, then every optional file tagged \<^verbatim>\<open>False\<close> when
  optional files are asked for.\<close>

definition files_to_download :: "model \<Rightarrow> bool \<Rightarrow> (string \<times> bool) list" where
  "files_to_download m include_optional =
     (let required_files =
            (case m_files m of None \<Rightarrow> [] | Some fl \<Rightarrow> get_or (required fl) []);
          optional_files =
            (case m_files m of None \<Rightarrow> [] | Some fl \<Rightarrow> get_or (optional fl) [])
      in map (\<lambda>f. (f, True)) required_files
           @ (if include_optional then map (\<lambda>f. (f, False)) optional_files else []))"

text \<open>
  One finished future: file path, required flag, and the pair \<^verbatim>\<open>_download_file\<close>
  returned. The submit loop (lines 225-230) resolves each URL and hands the fetch to the
  pool. The pool is modelled by running the fetches one after another in submission
  order (their results reach the loop below in completion order); a URL that cannot be
  resolved raises out of the loop, and the fetches submitted before it have run.
\<close>

type_synonym outcome = "string \<times> bool \<times> bool \<times> message"

fun run_downloads ::
  "env \<Rightarrow> model \<Rightarrow> string \<Rightarrow> (string \<times> bool) list \<Rightarrow> state
     \<Rightarrow> (exn + outcome list) \<times> state" where
  "run_downloads e m local_path [] st = (Inr [], st)"
| "run_downloads e m local_path ((file_path, is_required) # rest) st =
     (case md_get_download_url m file_path of
        Inl ex \<Rightarrow> (Inl ex, st)
      | Inr url \<Rightarrow>
          (case md_download_file e st url (path_join local_path file_path) of
             ((success, msg), st1) \<Rightarrow>
               (case run_downloads e m local_path rest st1 of
                  (Inl ex, st2) \<Rightarrow> (Inl ex, st2)
                | (Inr outs, st2) \<Rightarrow>
                    (Inr ((file_path, is_required, success, msg) # outs), st2))))"

text \<open>\<^verbatim>\<open>as_completed(futures)\<close>: every future once, in the order of completion (futures
  that complete at the same moment in submission order).\<close>

definition as_completed :: "env \<Rightarrow> outcome list \<Rightarrow> outcome list" where
  "as_completed e outs =
     map snd (sort_key (\<lambda>p. finish_time e (fst p)) (enumerate 0 outs))"

text \<open>The loop over \<^verbatim>\<open>as_completed(futures)\<close> (lines 233-243), on the finished futures
  in the order they complete, from \<^verbatim>\<open>(success_count, failed_files)\<close>.\<close>

fun collect_results :: "outcome list \<Rightarrow> nat \<times> string list \<Rightarrow> nat \<times> string list" where
  "collect_results [] acc = acc"
| "collect_results ((file_path, is_required, success, msg) # rest)
       (success_count, failed_files) =
     (if success then collect_results rest (success_count + 1, failed_files)
      else if is_required then collect_results rest (success_count, failed_files @ [file_path])
      else collect_results rest (success_count, failed_files))"

text \<open>Every way \<^verbatim>\<open>download_model\<close> ends, with what it prints there: the counts of the
  success line, the names of the failure line, the exception that escapes.
  \<^verbatim>\<open>returns\<close> is the Boolean the Python function returns.\<close>

datatype result =
  ModelNotFound
  | AlreadyDownloaded
  | NoFilesSpecified
  | Success nat nat
  | FailedRequired "string list"
  | Raised exn

fun returns :: "result \<Rightarrow> bool option" where
  "returns ModelNotFound = Some False"
| "returns AlreadyDownloaded = Some True"
| "returns NoFilesSpecified = Some False"
| "returns (Success n k) = Some True"
| "returns (FailedRequired names) = Some False"
| "returns (Raised ex) = None"

definition empty_status :: status where
  "empty_status = \<lparr> downloaded = None, verified = None, download_date = None \<rparr>"

text \<open>\<^verbatim>\<open>if 'status' not in model: model['status'] = {}\<close> (lines 246-247).\<close>

definition ensure_status :: "model \<Rightarrow> model" where
  "ensure_status m =
     (case m_status m of None \<Rightarrow> m\<lparr>m_status := Some empty_status\<rparr> | Some s \<Rightarrow> m)"

text \<open>The three assignments of lines 250-252.\<close>

definition mark_downloaded :: "string \<Rightarrow> model \<Rightarrow> model" where
  "mark_downloaded date m =
     m\<lparr>m_status :=
         Some ((get_or (m_status m) empty_status)
                 \<lparr>downloaded := Some True, verified := Some True,
                  download_date := Some date\<rparr>)\<rparr>"

text \<open>\<^verbatim>\<open>ModelDownloader._save_registry\<close> (sync_registry_models.py, lines 49-52). Writing
  the registry file is taken to succeed.\<close>

definition md_save_registry :: "state \<Rightarrow> state" where
  "md_save_registry st = st\<lparr>saved := Some (reg st)\<rparr>"

definition map_models :: "(model list \<Rightarrow> model list) \<Rightarrow> state \<Rightarrow> state" where
  "map_models f st = st\<lparr>reg := (reg st)\<lparr>models := f (models (reg st))\<rparr>\<rparr>"

text \<open>\<^verbatim>\<open>ModelDownloader.download_model\<close> (sync_registry_models.py, lines 166-258). The
  header it prints indexes \<^verbatim>\<open>model['type']\<close> (line 187), which raises \<^verbatim>\<open>KeyError\<close> on a
  record without that key, before anything else is looked at;
  \<^verbatim>\<open>ThreadPoolExecutor(max_workers=...)\<close> (line 222) raises \<^verbatim>\<open>ValueError\<close> when the worker
  count is not positive.\<close>

definition md_download_model ::
  "env \<Rightarrow> state \<Rightarrow> string \<Rightarrow> bool \<Rightarrow> bool \<Rightarrow> result \<times> state" where
  "md_download_model e st model_id force include_optional =
     (case find_model (models (reg st)) model_id of
        None \<Rightarrow> (ModelNotFound, st)
      | Some m \<Rightarrow>
          (case m_type m of
             None \<Rightarrow> (Raised (KeyError ''type''), st)
           | Some model_type \<Rightarrow>
               if \<not> force \<and> is_downloaded m then (AlreadyDownloaded, st)
               else
                 (let local_path = path_join (models_dir e) (m_local_path m) in
                  if fault e local_path = MkdirFails
                  then (Raised (OSError ''mkdir failed''), st)
                  else
                    (let files = files_to_download m include_optional in
                     if files = [] then (NoFilesSpecified, st)
                     else if max_workers e \<le> 0
                     then (Raised (ValueError ''max_workers must be greater than 0''), st)
                     else
                       (case run_downloads e m local_path files st of
                          (Inl ex, st1) \<Rightarrow> (Raised ex, st1)
                        | (Inr outs, st1) \<Rightarrow>
                            (case collect_results (as_completed e outs) (0, []) of
                               (success_count, failed_files) \<Rightarrow>
                                 (let this = (\<lambda>x. m_id x = model_id);
                                      st2 = map_models (update_first this ensure_status) st1
                                  in if failed_files = [] then
                                       (Success success_count (length files),
                                        md_save_registry
                                          (map_models
                                             (update_first this (mark_downloaded (today e)))
                                             st2))
                                     else (FailedRequired failed_files, st2))))))))"

section \<open>Registry statistics of add\_new\_model.py\<close>

text \<open>\<^verbatim>\<open>if key in counts: counts[key] += 1\<close> on a dictionary with a fixed key order.\<close>

fun bump :: "string \<Rightarrow> (string \<times> int) list \<Rightarrow> (string \<times> int) list" where
  "bump k [] = []"
| "bump k ((k', n) # rest) = (if k = k' then (k', n + 1) # rest else (k', n) # bump k rest)"

text \<open>\<^verbatim>\<open>HFModelDownloader._update_statistics\<close> (add_new_model.py, lines 475-507). The six
  keys it assigns are the whole statistics record here. \<^verbatim>\<open>source\<close> is a plain field of a
  model record, so the default platform \<^verbatim>\<open>'local'\<close> of line 493 never applies.\<close>

definition update_statistics :: "state \<Rightarrow> state" where
  "update_statistics st =
     (let ms = models (reg st);
          type_counts =
            fold (\<lambda>m. bump (get_or (m_type m) ''asr'')) ms
              [(''asr'', 0), (''wakeword'', 0), (''vad'', 0), (''tts'', 0), (''nlp'', 0)];
          source_counts =
            fold (\<lambda>m. bump (s_platform (m_source m))) ms
              [(''huggingface'', 0), (''github'', 0), (''local'', 0)];
          n_downloaded = int (length (filter is_downloaded ms));
          total_size =
            sum_list
              (map (\<lambda>m. case m_specs m of None \<Rightarrow> 0 | Some sp \<Rightarrow> get_or (size_mb sp) 0) ms)
      in st\<lparr>reg := (reg st)
            \<lparr>stats := Some \<lparr> total_models = int (length ms), by_type = type_counts,
                              by_source = source_counts,
                              downloaded_models = n_downloaded,
                              pending_models = int (length ms) - n_downloaded,
                              total_size_mb = total_size \<rparr>\<rparr>\<rparr>)"

text \<open>\<^verbatim>\<open>HFModelDownloader._save_registry\<close> (add_new_model.py, lines 87-91).\<close>

definition hf_save_registry :: "env \<Rightarrow> state \<Rightarrow> state" where
  "hf_save_registry e st =
     (let st1 = st\<lparr>reg := (reg st)\<lparr>last_updated := Some (today e)\<rparr>\<rparr>
      in st1\<lparr>saved := Some (reg st1)\<rparr>)"

section \<open>Vocabulary of the properties\<close>

text \<open>The task a finished future belongs to, whether its fetch succeeded, and the failed
  required files of a list of finished futures, as the specification names them.\<close>

definition task_of :: "outcome \<Rightarrow> string \<times> bool" where
  "task_of out = (fst out, fst (snd out))"

definition succeeded :: "outcome \<Rightarrow> bool" where
  "succeeded out = fst (snd (snd out))"

definition failed_required :: "outcome list \<Rightarrow> string list" where
  "failed_required outs =
     map fst (filter (\<lambda>out. fst (snd out) \<and> \<not> succeeded out) outs)"

text \<open>The platforms \<^verbatim>\<open>_get_download_url\<close> resolves.\<close>

definition supported :: "model \<Rightarrow> bool" where
  "supported m =
     (s_platform (m_source m) = ''huggingface'' \<or> s_platform (m_source m) = ''github'')"

text \<open>The host of a URL as the specification means it (\<^verbatim>\<open>urlparse(url).netloc\<close>): the text
  between \<^verbatim>\<open>://\<close> and the next slash; empty when the URL has no \<^verbatim>\<open>://\<close>.\<close>

fun after_scheme :: "string \<Rightarrow> string" where
  "after_scheme (a # b # c # rest) =
     (if [a, b, c] = ''://'' then rest else after_scheme (b # c # rest))"
| "after_scheme s = []"

definition url_host :: "string \<Rightarrow> string" where
  "url_host url = takeWhile (\<lambda>c. c \<noteq> CHR ''/'') (after_scheme url)"

section \<open>Concrete scenarios\<close>

text \<open>The scenario of the specification: one Hugging Face model \<^verbatim>\<open>whisper-tiny\<close> with
  required files \<^verbatim>\<open>config.json\<close> and \<^verbatim>\<open>tokenizer.json\<close>, a server that answers 404 for
  the listed URLs and 200 with a two-byte body for every other one, a disk without faults.\<close>

definition whisper_tiny :: model where
  "whisper_tiny =
     \<lparr> m_id = ''whisper-tiny'', m_name = ''Whisper Tiny'', m_type = Some ''asr'',
       m_source = \<lparr> s_platform = ''huggingface'', s_author = ''Xenova'',
                    s_repository = ''whisper-tiny'', s_branch = None, s_release = None \<rparr>,
       m_local_path = ''hf/whisper-tiny'',
       m_files = Some \<lparr> required = Some [''config.json'', ''tokenizer.json''],
                         optional = Some [''normalizer.json''] \<rparr>,
       m_status = Some \<lparr> downloaded = Some False, verified = Some False,
                          download_date = None \<rparr>,
       m_specs = Some \<lparr> size_mb = Some 39 \<rparr> \<rparr>"

definition ok_response :: response where
  "ok_response = \<lparr> status_code = 200, content_length = Length 2, chunks = [''{}''],
                   stream_error = None \<rparr>"

definition status_response :: "nat \<Rightarrow> response" where
  "status_response code = \<lparr> status_code = code, content_length = NoLength, chunks = [],
                   stream_error = None \<rparr>"

definition remote_missing :: "string list \<Rightarrow> string \<Rightarrow> headers \<Rightarrow> net_result" where
  "remote_missing missing url hdrs =
     (if url \<in> set missing then Response (status_response 404) else Response ok_response)"

definition test_env :: "string list \<Rightarrow> env" where
  "test_env missing =
     \<lparr> hf_token = None, remote = remote_missing missing, fault = (\<lambda>p. NoFault),
       today = ''2024-06-01'', models_dir = ''models'', max_workers = 3,
       finish_time = (\<lambda>i. 0) \<rparr>"

definition test_stats :: "int \<Rightarrow> int \<Rightarrow> statistics" where
  "test_stats d p =
     \<lparr> total_models = d + p, by_type = [(''asr'', d + p)], by_source = [(''huggingface'', d + p)],
       downloaded_models = d, pending_models = p, total_size_mb = 39 \<rparr>"

definition test_state :: "model list \<Rightarrow> statistics \<Rightarrow> (string \<times> string) list \<Rightarrow> state" where
  "test_state ms sts files =
     \<lparr> reg = \<lparr> models = ms, stats = Some sts, last_updated = Some ''2024-01-01'' \<rparr>,
       saved = Some \<lparr> models = ms, stats = Some sts, last_updated = Some ''2024-01-01'' \<rparr>,
       fs = map_of files, net_log = [] \<rparr>"

definition url_of :: "string \<Rightarrow> string" where
  "url_of f = ''https://huggingface.co/Xenova/whisper-tiny/resolve/main/'' @ f"

definition whisper_done :: model where
  "whisper_done = mark_downloaded ''2024-01-01'' whisper_tiny"

definition tokenizer_missing_state :: state where
  "tokenizer_missing_state =
     test_state [whisper_done] (test_stats 1 0)
       [(''models/hf/whisper-tiny/config.json'', ''{}'')]"

definition tokenizer_run :: "bool \<Rightarrow> result \<times> state" where
  "tokenizer_run force =
     md_download_model (test_env [url_of ''tokenizer.json'']) tokenizer_missing_state
       ''whisper-tiny'' force False"

text \<open>A GitHub repository whose name contains the text \<^verbatim>\<open>huggingface.co\<close>, and a run with
  a Hugging Face token configured.\<close>

definition mirror_model :: model where
  "mirror_model =
     \<lparr> m_id = ''mirror'', m_name = ''Mirror'', m_type = Some ''asr'',
       m_source = \<lparr> s_platform = ''github'', s_author = ''octo'',
                    s_repository = ''huggingface.co'', s_branch = None, s_release = None \<rparr>,
       m_local_path = ''github/octo/mirror'',
       m_files = Some \<lparr> required = Some [''model.onnx''], optional = None \<rparr>,
       m_status = None,
       m_specs = None \<rparr>"

definition mirror_url :: string where
  "mirror_url = ''https://raw.githubusercontent.com/octo/huggingface.co/main/model.onnx''"

definition token_env :: env where
  "token_env = (test_env [])\<lparr>hf_token := Some ''hf_secret''\<rparr>"

text \<open>A server that answers every request with the given status, one that cannot be
  reached, and one whose body stream breaks after the first chunk.\<close>

definition status_env :: "nat \<Rightarrow> env" where
  "status_env code = (test_env [])\<lparr>remote := (\<lambda>url hdrs. Response (status_response code))\<rparr>"

definition offline_env :: env where
  "offline_env = (test_env [])\<lparr>remote := (\<lambda>url hdrs. ConnError ''timed out'')\<rparr>"

definition broken_stream_env :: env where
  "broken_stream_env =
     (test_env [])
       \<lparr>remote := (\<lambda>url hdrs. Response \<lparr> status_code = 200, content_length = Length 1000,
                                           chunks = [''abc''],
                                           stream_error = Some ''Connection broken'' \<rparr>)\<rparr>"

text \<open>A server without \<^verbatim>\<open>config.json\<close> and \<^verbatim>\<open>tokenizer.json\<close>, and futures that complete
  in the reverse of their submission order.\<close>

definition last_first_env :: env where
  "last_first_env =
     (test_env [url_of ''config.json'', url_of ''tokenizer.json''])
       \<lparr>finish_time := (\<lambda>i. 10 - i)\<rparr>"

definition empty_state :: state where
  "empty_state = test_state [whisper_tiny] (test_stats 0 1) []"

definition config_dest :: string where
  "config_dest = ''models/hf/whisper-tiny/config.json''"

definition stale_run :: "result \<times> state" where
  "stale_run = md_download_model (test_env []) empty_state ''whisper-tiny'' False False"

section \<open>Properties of URL resolution\<close>

text \<open>
  Claim C3, as the code has it. For a record whose platform is \<^verbatim>\<open>huggingface\<close> the
  resolved URL is \<^verbatim>\<open>https://huggingface.co/<author>/<repository>/resolve/main/<f>\<close>: the
  branch segment is always \<^verbatim>\<open>main\<close>, whatever the record's \<^verbatim>\<open>branch\<close> field holds. It
  coincides with the specified URL exactly when the branch is unset or is \<^verbatim>\<open>main\<close>.
  \<^verbatim>\<open>build_file_url\<close> puts its \<^verbatim>\<open>branch\<close> argument into the same shape.
\<close>

theorem C3_huggingface_url_main:
  assumes "s_platform (m_source mdl) = ''huggingface''"
  shows "md_get_download_url mdl f =
           Inr (''https://huggingface.co/'' @ s_author (m_source mdl) @ ''/''
                  @ s_repository (m_source mdl) @ ''/resolve/main/'' @ f)
         \<and> md_get_download_url mdl f =
             Inr (build_file_url (s_author (m_source mdl)) (s_repository (m_source mdl))
                    f ''main'')
         \<and> ((md_get_download_url mdl f = Inr (spec_huggingface_url mdl f))
              = (get_or (s_branch (m_source mdl)) ''main'' = ''main''))"
  using assms
  by (auto simp add: md_get_download_url_def build_file_url_def spec_huggingface_url_def
        Let_def)

theorem C3_huggingface_url_main_witness:
  "s_platform (m_source hf_dev_model) = ''huggingface''
   \<and> md_get_download_url hf_dev_model ''config.json''
       = Inr ''https://huggingface.co/Xenova/whisper-tiny/resolve/main/config.json''"
  using C3_huggingface_url_main [of hf_dev_model "''config.json''"]
  by (simp add: hf_dev_model_def)

text \<open>The claim as worded fails on a record whose branch is \<^verbatim>\<open>dev\<close>: the code resolves
  under \<^verbatim>\<open>resolve/main\<close>, the claim asks for \<^verbatim>\<open>resolve/dev\<close>.\<close>

theorem C3_branch_counterexample:
  "md_get_download_url hf_dev_model ''config.json''
     \<noteq> Inr (spec_huggingface_url hf_dev_model ''config.json'')"
  by (simp add: md_get_download_url_def spec_huggingface_url_def hf_dev_model_def
        get_or_def Let_def)

text \<open>
  Claim C9, as the code has it. For a record whose platform is \<^verbatim>\<open>github\<close>, with
  \<^verbatim>\<open>branch\<close> defaulting to \<^verbatim>\<open>main\<close>: a repository other than \<^verbatim>\<open>openWakeWord\<close> resolves
  to \<^verbatim>\<open>https://raw.githubusercontent.com/<author>/<repository>/<branch>/<f>\<close>; the
  repository \<^verbatim>\<open>openWakeWord\<close> resolves, when a release tag is set and is not
  \<^verbatim>\<open>latest\<close>, to the release-asset path for that tag followed by the whole relative
  path \<^verbatim>\<open>f\<close> (not its base name), and otherwise to
  \<^verbatim>\<open>https://github.com/<author>/<repository>/raw/<branch>/models/<f>\<close>.
\<close>

theorem C9_github_url:
  assumes "s_platform (m_source mdl) = ''github''"
  shows "md_get_download_url mdl f =
           (if s_repository (m_source mdl) \<noteq> ''openWakeWord'' then
              Inr (''https://raw.githubusercontent.com/'' @ s_author (m_source mdl) @ ''/''
                     @ s_repository (m_source mdl) @ ''/''
                     @ get_or (s_branch (m_source mdl)) ''main'' @ ''/'' @ f)
            else if s_release (m_source mdl) \<noteq> None
                    \<and> s_release (m_source mdl) \<noteq> Some ''latest'' then
              Inr (''https://github.com/'' @ s_author (m_source mdl)
                     @ ''/openWakeWord/releases/download/''
                     @ get_or (s_release (m_source mdl)) ''latest'' @ ''/'' @ f)
            else
              Inr (''https://github.com/'' @ s_author (m_source mdl)
                     @ ''/openWakeWord/raw/''
                     @ get_or (s_branch (m_source mdl)) ''main'' @ ''/models/'' @ f))"
  using assms
  by (auto simp add: md_get_download_url_def get_or_def Let_def split: option.splits)

theorem C9_github_url_witness:
  "s_platform (m_source oww_model) = ''github''
   \<and> md_get_download_url oww_model ''onnx/hey_jarvis_v0.1.onnx''
       = Inr (''https://github.com/dscripka/openWakeWord/releases/download/v0.5.1/''
                @ ''onnx/hey_jarvis_v0.1.onnx'')"
  using C9_github_url [of oww_model "''onnx/hey_jarvis_v0.1.onnx''"]
  by (simp add: oww_model_def get_or_def)

text \<open>The claim as worded fails on a file path with a directory part: the code appends
  the whole path \<^verbatim>\<open>onnx/hey_jarvis_v0.1.onnx\<close> to the release URL, the claim asks for the
  base name \<^verbatim>\<open>hey_jarvis_v0.1.onnx\<close>.\<close>

theorem C9_base_name_counterexample:
  "md_get_download_url oww_model ''onnx/hey_jarvis_v0.1.onnx''
     \<noteq> Inr (spec_release_asset_url oww_model ''onnx/hey_jarvis_v0.1.onnx'')"
  by (simp add: md_get_download_url_def spec_release_asset_url_def oww_model_def
        get_or_def base_name_def Let_def)

section \<open>Lemmas about fetching one file\<close>

lemma md_download_file_reg [simp]:
  "reg (snd (md_download_file e st url dest)) = reg st"
  "saved (snd (md_download_file e st url dest)) = saved st"
  by (auto simp: md_download_file_def md_except_def Let_def split: net_result.splits option.splits prod.splits)

lemma md_download_file_exists:
  assumes "fs st dest = Some c" "fault e dest \<noteq> MkdirFails"
  shows "md_download_file e st url dest = ((True, AlreadyExists (base_name dest)), st)"
  using assms by (simp add: md_download_file_def Let_def)

lemma md_download_file_failed_removed:
  assumes "md_download_file e st url dest = ((False, msg), st')"
  shows "fs st' dest = None"
  using assms
  by (auto simp: md_download_file_def md_except_def Let_def split: net_result.splits option.splits prod.splits if_splits)

lemma md_download_file_other:
  assumes "p \<noteq> dest"
  shows "fs (snd (md_download_file e st url dest)) p = fs st p"
  using assms
  by (auto simp: md_download_file_def md_except_def stream_to_file_def Let_def split: net_result.splits option.splits prod.splits if_splits)

lemma md_download_file_keeps:
  assumes "fs st p = Some c" "fault e p \<noteq> MkdirFails"
  shows "fs (snd (md_download_file e st url dest)) p = Some c"
proof (cases "p = dest")
  case True
  then show ?thesis using assms by (simp add: md_download_file_exists)
next
  case False
  then show ?thesis using assms by (simp add: md_download_file_other)
qed

lemma md_download_file_log_cases:
  "net_log (snd (md_download_file e st url dest)) = net_log st \<or>
   (net_log (snd (md_download_file e st url dest))
      = net_log st @ [(url, request_headers (hf_token e) url)]
    \<and> fs st dest = None \<and> fault e dest \<noteq> MkdirFails)"
  by (auto simp: md_download_file_def md_except_def stream_to_file_def Let_def
           split: net_result.splits option.splits prod.splits if_splits)

text \<open>Whenever \<^verbatim>\<open>_download_file\<close> of sync\_registry\_models.py returns \<^verbatim>\<open>False\<close>, no file
  is at the destination, on every input.\<close>

lemma md_download_file_failure_leaves_no_file:
  assumes "fst (fst (md_download_file e st url dest)) = False"
  shows "fs (snd (md_download_file e st url dest)) dest = None"
proof -
  obtain msg st' where "md_download_file e st url dest = ((False, msg), st')"
    using assms by (metis prod.collapse)
  then show ?thesis using md_download_file_failed_removed by fastforce
qed

text \<open>The only exception the write loop ends with is the \<^verbatim>\<open>OSError\<close> of a failed
  \<^verbatim>\<open>write\<close>; hence a message of \<^verbatim>\<open>_download_file\<close> that carries an \<^verbatim>\<open>HTTPError\<close> comes
  from \<^verbatim>\<open>raise_for_status\<close> on the response.\<close>

lemma write_chunks_error:
  "write_chunks flt skip i acc cs = (content, Some ex) \<Longrightarrow> ex = OSError ''write failed''"
  by (induction flt skip i acc cs rule: write_chunks.induct) (auto split: if_splits)

lemma stream_to_file_error:
  assumes "stream_to_file e dest r skip files = (files', Some ex)"
  shows "\<exists>t. ex = OSError t \<or> ex = RequestException t"
proof (cases "fault e dest = OpenFails")
  case True
  then show ?thesis using assms by (auto simp: stream_to_file_def)
next
  case False
  obtain content err where w: "write_chunks (fault e dest) skip 0 [] (chunks r) = (content, err)"
    by (metis surj_pair)
  show ?thesis
  proof (cases err)
    case None
    then show ?thesis using assms False w by (auto simp: stream_to_file_def)
  next
    case (Some x)
    then have "x = OSError ''write failed''" using w write_chunks_error by blast
    then show ?thesis using assms False w Some by (auto simp: stream_to_file_def)
  qed
qed

lemma md_download_file_http_error:
  assumes "md_download_file e st url dest = ((False, FailedToDownload name (HTTPError code)), st')"
  shows "\<exists>r. remote e url (request_headers (hf_token e) url) = Response r
             \<and> status_code r = code"
proof (cases "fault e dest = MkdirFails \<or> fs st dest \<noteq> None")
  case True
  then show ?thesis
    using assms
    by (cases "fault e dest = MkdirFails")
       (auto simp: md_download_file_def md_except_def Let_def)
next
  case False
  show ?thesis
  proof (cases "remote e url (request_headers (hf_token e) url)")
    case (ConnError t)
    then show ?thesis
      using assms False by (auto simp: md_download_file_def md_except_def Let_def)
  next
    case (Response r)
    show ?thesis
    proof (cases "raise_for_status r")
      case (Some ex)
      then show ?thesis
        using assms False Response
        by (auto simp: md_download_file_def md_except_def raise_for_status_def Let_def
                 split: if_splits)
    next
      case None
      show ?thesis
      proof (cases "content_length r = BadLength")
        case True
        then show ?thesis
          using assms False Response None
          by (auto simp: md_download_file_def md_except_def Let_def)
      next
        case nb: False
        obtain files err where
          s: "stream_to_file e dest r True
                (fs (st\<lparr>net_log := net_log st @ [(url, request_headers (hf_token e) url)]\<rparr>))
              = (files, err)"
          by (metis surj_pair)
        show ?thesis
        proof (cases err)
          case None
          then show ?thesis
            using assms False Response \<open>raise_for_status r = None\<close> nb s
            by (auto simp: md_download_file_def Let_def)
        next
          case (Some ex)
          then obtain t where "ex = OSError t \<or> ex = RequestException t"
            using s stream_to_file_error by blast
          then show ?thesis
            using assms False Response \<open>raise_for_status r = None\<close> nb s Some
            by (auto simp: md_download_file_def md_except_def Let_def)
        qed
      qed
    qed
  qed
qed

text \<open>What the header test of the code is, for every token and URL.\<close>

lemma request_headers_iff:
  "(request_headers tok url \<noteq> [])
     = (\<exists>t. tok = Some t \<and> t \<noteq> [] \<and> str_in ''huggingface.co'' url)"
  by (auto simp: request_headers_def split: option.splits)

section \<open>Lemmas about a synchronisation run\<close>

lemma url_supported: "supported m \<Longrightarrow> \<exists>u. md_get_download_url m f = Inr u"
  by (auto simp: supported_def md_get_download_url_def Let_def)

lemma url_unsupported: "\<not> supported m \<Longrightarrow> md_get_download_url m f = Inl (ValueError (''Unsupported platform: '' @ s_platform (m_source m)))"
  by (auto simp: supported_def md_get_download_url_def Let_def)

lemma url_injective:
  assumes "md_get_download_url m f = Inr u" "md_get_download_url m f' = Inr u"
  shows "f = f'"
  using assms
  by (auto simp: md_get_download_url_def Let_def split: if_splits)

lemma run_downloads_reg:
  "reg (snd (run_downloads e m lp files st)) = reg st \<and> saved (snd (run_downloads e m lp files st)) = saved st"
proof (induction files arbitrary: st)
  case Nil
  then show ?case by simp
next
  case (Cons a files)
  obtain f r where a: "a = (f, r)" by (cases a)
  show ?case
  proof (cases "md_get_download_url m f")
    case (Inl ex)
    then show ?thesis by (simp add: a)
  next
    case (Inr url)
    obtain ok msg st1 where d: "md_download_file e st url (path_join lp f) = ((ok, msg), st1)"
      by (metis surj_pair)
    have r1: "reg st1 = reg st" "saved st1 = saved st"
      using md_download_file_reg [of e st url "path_join lp f"] d by simp_all
    show ?thesis
      using Cons.IH [of st1] r1
      by (auto simp: a Inr d split: prod.splits sum.splits)
  qed
qed

lemma run_downloads_total:
  assumes "supported m"
  shows "\<exists>outs st1. run_downloads e m lp files st = (Inr outs, st1)
            \<and> map task_of outs = files"
proof (induction files arbitrary: st)
  case Nil
  then show ?case by simp
next
  case (Cons a files)
  obtain f r where a: "a = (f, r)" by (cases a)
  obtain url where u: "md_get_download_url m f = Inr url" using url_supported [OF assms] by blast
  obtain ok msg st1 where d: "md_download_file e st url (path_join lp f) = ((ok, msg), st1)"
    by (metis surj_pair)
  obtain outs st2 where r: "run_downloads e m lp files st1 = (Inr outs, st2)"
     "map task_of outs = files"
    using Cons.IH [of st1] by blast
  have t: "task_of (f, r, ok, msg) = (f, r)" by (simp add: task_of_def)
  show ?case by (simp add: a u d r t)
qed

lemma run_downloads_keeps:
  assumes "fs st p = Some c" "fault e p \<noteq> MkdirFails"
  shows "fs (snd (run_downloads e m lp files st)) p = Some c"
  using assms(1)
proof (induction files arbitrary: st)
  case Nil
  then show ?case by simp
next
  case (Cons a files)
  obtain f r where a: "a = (f, r)" by (cases a)
  show ?case
  proof (cases "md_get_download_url m f")
    case (Inl ex)
    then show ?thesis using Cons.prems by (simp add: a)
  next
    case (Inr url)
    obtain ok msg st1 where d: "md_download_file e st url (path_join lp f) = ((ok, msg), st1)"
      by (metis surj_pair)
    have "fs st1 p = Some c"
      using md_download_file_keeps [OF Cons.prems assms(2), of url "path_join lp f"] d by simp
    then have "fs (snd (run_downloads e m lp files st1)) p = Some c"
      by (rule Cons.IH)
    then show ?thesis
      by (auto simp: a Inr d split: prod.splits sum.splits)
  qed
qed

lemma run_downloads_log:
  "\<exists>new. net_log (snd (run_downloads e m lp files st)) = net_log st @ new
     \<and> (\<forall>x \<in> set new. \<exists>f r. (f, r) \<in> set files
           \<and> md_get_download_url m f = Inr (fst x)
           \<and> fs st (path_join lp f) = None
           \<and> fault e (path_join lp f) \<noteq> MkdirFails)"
proof (induction files arbitrary: st)
  case Nil
  then show ?case by simp
next
  case (Cons a files)
  obtain f r where a: "a = (f, r)" by (cases a)
  show ?case
  proof (cases "md_get_download_url m f")
    case (Inl ex)
    then show ?thesis by (simp add: a)
  next
    case (Inr url)
    obtain ok msg st1 where d: "md_download_file e st url (path_join lp f) = ((ok, msg), st1)"
      by (metis surj_pair)
    obtain new where n: "net_log (snd (run_downloads e m lp files st1)) = net_log st1 @ new"
      and nn: "\<forall>x \<in> set new. \<exists>f r. (f, r) \<in> set files
           \<and> md_get_download_url m f = Inr (fst x)
           \<and> fs st1 (path_join lp f) = None
           \<and> fault e (path_join lp f) \<noteq> MkdirFails"
      using Cons.IH [of st1] by blast
    have step: "net_log st1 = net_log st \<or>
       (net_log st1 = net_log st @ [(url, request_headers (hf_token e) url)]
        \<and> fs st (path_join lp f) = None \<and> fault e (path_join lp f) \<noteq> MkdirFails)"
      using md_download_file_log_cases [of e st url "path_join lp f"] d by simp
    have earlier: "fs st q = None" if "fs st1 q = None" "fault e q \<noteq> MkdirFails" for q
    proof (cases "fs st q")
      case None
      then show ?thesis .
    next
      case (Some c)
      then show ?thesis
        using md_download_file_keeps [OF Some that(2), of url "path_join lp f"] d that(1)
        by simp
    qed
    have old: "\<forall>x \<in> set new. \<exists>f' r'. (f', r') \<in> set (a # files)
           \<and> md_get_download_url m f' = Inr (fst x)
           \<and> fs st (path_join lp f') = None
           \<and> fault e (path_join lp f') \<noteq> MkdirFails"
    proof
      fix x assume "x \<in> set new"
      then obtain f' r' where "(f', r') \<in> set files" "md_get_download_url m f' = Inr (fst x)"
        "fs st1 (path_join lp f') = None" "fault e (path_join lp f') \<noteq> MkdirFails"
        using nn by blast
      then show "\<exists>f' r'. (f', r') \<in> set (a # files)
           \<and> md_get_download_url m f' = Inr (fst x)
           \<and> fs st (path_join lp f') = None
           \<and> fault e (path_join lp f') \<noteq> MkdirFails"
        using earlier by (metis list.set_intros(2))
    qed
    have run: "snd (run_downloads e m lp (a # files) st) = snd (run_downloads e m lp files st1)"
      by (auto simp: a Inr d split: prod.splits sum.splits)
    from step show ?thesis
    proof
      assume "net_log st1 = net_log st"
      then have "net_log (snd (run_downloads e m lp (a # files) st)) = net_log st @ new"
        by (simp add: run n)
      then show ?thesis using old by blast
    next
      assume s: "net_log st1 = net_log st @ [(url, request_headers (hf_token e) url)]
        \<and> fs st (path_join lp f) = None \<and> fault e (path_join lp f) \<noteq> MkdirFails"
      then have l: "net_log (snd (run_downloads e m lp (a # files) st))
                  = net_log st @ ((url, request_headers (hf_token e) url) # new)"
        by (simp add: run n)
      have "\<forall>x \<in> set ((url, request_headers (hf_token e) url) # new).
              \<exists>f' r'. (f', r') \<in> set (a # files)
           \<and> md_get_download_url m f' = Inr (fst x)
           \<and> fs st (path_join lp f') = None
           \<and> fault e (path_join lp f') \<noteq> MkdirFails"
      proof
        fix x assume x: "x \<in> set ((url, request_headers (hf_token e) url) # new)"
        show "\<exists>f' r'. (f', r') \<in> set (a # files)
           \<and> md_get_download_url m f' = Inr (fst x)
           \<and> fs st (path_join lp f') = None
           \<and> fault e (path_join lp f') \<noteq> MkdirFails"
        proof (cases "x = (url, request_headers (hf_token e) url)")
          case True
          have "(f, r) \<in> set (a # files)" by (simp add: a)
          then show ?thesis using True Inr s by (metis fst_conv)
        next
          case False
          then have "x \<in> set new" using x by simp
          then show ?thesis using old by blast
        qed
      qed
      then show ?thesis using l by blast
    qed
  qed
qed

lemma collect_results_spec:
  "collect_results outs (n, fl) =
     (n + length (filter succeeded outs), fl @ failed_required outs)"
  by (induction outs "(n, fl)" arbitrary: n fl rule: collect_results.induct)
     (auto simp: succeeded_def failed_required_def)

lemma find_update_first:
  assumes "find P xs = Some x" "P (f x)"
  shows "find P (update_first P f xs) = Some (f x)"
  using assms by (induction xs) (auto split: if_splits)

lemma is_downloaded_ensure [simp]: "is_downloaded (ensure_status m) = is_downloaded m"
  by (simp add: ensure_status_def is_downloaded_def empty_status_def get_or_def split: option.splits)

lemma is_downloaded_mark [simp]: "is_downloaded (mark_downloaded d m)"
  by (simp add: mark_downloaded_def is_downloaded_def get_or_def)

lemma m_id_ensure [simp]: "m_id (ensure_status m) = m_id m"
  by (simp add: ensure_status_def split: option.splits)

lemma m_id_mark [simp]: "m_id (mark_downloaded d m) = m_id m"
  by (simp add: mark_downloaded_def)

lemma map_update_first_ensure:
  "map is_downloaded (update_first P ensure_status ms) = map is_downloaded ms"
  by (induction ms) auto

lemma find_model_after_mark:
  assumes "find_model ms mid = Some m"
  shows "find_model (update_first (\<lambda>x. m_id x = mid) (mark_downloaded d)
            (update_first (\<lambda>x. m_id x = mid) ensure_status ms)) mid
         = Some (mark_downloaded d (ensure_status m))"
proof -
  have 1: "find (\<lambda>x. m_id x = mid) ms = Some m" using assms by (simp add: find_model_def)
  then have "m_id m = mid" by (auto simp: find_Some_iff)
  then have 2: "find (\<lambda>x. m_id x = mid) (update_first (\<lambda>x. m_id x = mid) ensure_status ms)
                  = Some (ensure_status m)"
    using find_update_first [of "\<lambda>x. m_id x = mid" ms m ensure_status] 1 by simp
  have "find (\<lambda>x. m_id x = mid)
          (update_first (\<lambda>x. m_id x = mid) (mark_downloaded d)
             (update_first (\<lambda>x. m_id x = mid) ensure_status ms))
        = Some (mark_downloaded d (ensure_status m))"
    using find_update_first [of "\<lambda>x. m_id x = mid"
            "update_first (\<lambda>x. m_id x = mid) ensure_status ms" "ensure_status m"
            "mark_downloaded d"] 2 \<open>m_id m = mid\<close>
    by simp
  then show ?thesis by (simp add: find_model_def)
qed

lemma failed_required_set:
  "set (failed_required outs) = {f. \<exists>msg. (f, True, False, msg) \<in> set outs}"
  by (induction outs) (auto simp: failed_required_def succeeded_def)

lemma set_as_completed: "set (as_completed e outs) = set outs"
proof -
  have "set (map snd (sort_key (\<lambda>p. finish_time e (fst p)) (enumerate 0 outs)))
          = set (map snd (enumerate 0 outs))"
    by (simp only: set_map set_sort)
  then show ?thesis
    unfolding as_completed_def by (simp only: map_snd_enumerate)
qed

lemma length_filter_as_completed:
  "length (filter P (as_completed e outs)) = length (filter P outs)"
proof -
  have "length (filter P (as_completed e outs))
          = length (filter (P \<circ> snd) (sort_key (\<lambda>p. finish_time e (fst p)) (enumerate 0 outs)))"
    by (simp add: as_completed_def filter_map)
  also have "\<dots> = length (filter (P \<circ> snd) (enumerate 0 outs))"
    by (simp add: filter_sort)
  also have "\<dots> = length (filter P (map snd (enumerate 0 outs)))"
    by (simp only: filter_map length_map)
  also have "\<dots> = length (filter P outs)"
    by (simp only: map_snd_enumerate)
  finally show ?thesis .
qed

lemma failed_required_as_completed:
  "set (failed_required (as_completed e outs)) = set (failed_required outs)"
  "(failed_required (as_completed e outs) = []) = (failed_required outs = [])"
  "length (failed_required (as_completed e outs)) = length (failed_required outs)"
proof -
  show 1: "set (failed_required (as_completed e outs)) = set (failed_required outs)"
    by (simp add: failed_required_set set_as_completed)
  show "(failed_required (as_completed e outs) = []) = (failed_required outs = [])"
    using 1 by (metis set_empty)
  show "length (failed_required (as_completed e outs)) = length (failed_required outs)"
    by (simp add: failed_required_def length_filter_as_completed)
qed

lemma md_download_model_fetch_stage:
  assumes found: "find_model (models (reg st)) mid = Some m"
      and typed: "m_type m \<noteq> None"
      and go: "force \<or> \<not> is_downloaded m"
      and dir: "fault e (path_join (models_dir e) (m_local_path m)) \<noteq> MkdirFails"
      and files: "files_to_download m inc \<noteq> []"
      and workers: "0 < max_workers e"
      and run: "run_downloads e m (path_join (models_dir e) (m_local_path m))
                  (files_to_download m inc) st = (Inr outs, st1)"
  shows "md_download_model e st mid force inc =
           (if failed_required outs = [] then
              (Success (length (filter succeeded outs)) (length (files_to_download m inc)),
               md_save_registry
                 (map_models (update_first (\<lambda>x. m_id x = mid) (mark_downloaded (today e)))
                    (map_models (update_first (\<lambda>x. m_id x = mid) ensure_status) st1)))
            else
              (FailedRequired (failed_required (as_completed e outs)),
               map_models (update_first (\<lambda>x. m_id x = mid) ensure_status) st1))"
  using typed go dir files workers
  by (auto simp: md_download_model_def found run Let_def collect_results_spec
        failed_required_as_completed length_filter_as_completed)

lemma md_download_model_failed_inv:
  assumes "md_download_model e st mid force inc = (FailedRequired names, st')"
  shows "\<exists>m outs st1.
           find_model (models (reg st)) mid = Some m
           \<and> run_downloads e m (path_join (models_dir e) (m_local_path m))
                (files_to_download m inc) st = (Inr outs, st1)
           \<and> names = failed_required (as_completed e outs) \<and> names \<noteq> []
           \<and> st' = map_models (update_first (\<lambda>x. m_id x = mid) ensure_status) st1"
  using assms
  by (auto simp: md_download_model_def Let_def collect_results_spec
           split: option.splits if_splits sum.splits prod.splits)

lemma md_download_model_true_inv:
  assumes "md_download_model e st mid force inc = (r, st')" "returns r = Some True"
  shows "\<exists>m. find_model (models (reg st)) mid = Some m \<and> m_type m \<noteq> None
           \<and> ((r = AlreadyDownloaded \<and> st' = st \<and> \<not> force \<and> is_downloaded m)
              \<or> (\<exists>outs st1.
                   run_downloads e m (path_join (models_dir e) (m_local_path m))
                     (files_to_download m inc) st = (Inr outs, st1)
                   \<and> failed_required outs = []
                   \<and> r = Success (length (filter succeeded outs))
                             (length (files_to_download m inc))
                   \<and> st' = md_save_registry
                       (map_models
                          (update_first (\<lambda>x. m_id x = mid) (mark_downloaded (today e)))
                          (map_models (update_first (\<lambda>x. m_id x = mid) ensure_status) st1))))"
  using assms
  by (auto simp: md_download_model_def Let_def collect_results_spec
           failed_required_as_completed length_filter_as_completed
           split: option.splits if_splits sum.splits prod.splits)

lemma md_download_model_short_circuit:
  assumes "find_model (models (reg st)) mid = Some m" "m_type m \<noteq> None" "is_downloaded m"
  shows "md_download_model e st mid False inc = (AlreadyDownloaded, st)"
  using assms by (auto simp: md_download_model_def)

lemma md_download_model_state:
  assumes "find_model (models (reg st)) mid = Some m"
  shows "(fs (snd (md_download_model e st mid force inc)) = fs st
          \<and> net_log (snd (md_download_model e st mid force inc)) = net_log st)
       \<or> (fs (snd (md_download_model e st mid force inc))
            = fs (snd (run_downloads e m (path_join (models_dir e) (m_local_path m))
                         (files_to_download m inc) st))
          \<and> net_log (snd (md_download_model e st mid force inc))
            = net_log (snd (run_downloads e m (path_join (models_dir e) (m_local_path m))
                         (files_to_download m inc) st)))"
  using assms
  by (auto simp: md_download_model_def map_models_def md_save_registry_def Let_def
           split: option.splits prod.splits sum.splits)

text \<open>\<^verbatim>\<open>_update_statistics\<close> followed by \<^verbatim>\<open>_save_registry\<close>, as add\_new\_model.py
  persists (lines 324-328): the document written carries statistics recomputed from its
  models.\<close>

lemma hf_persist_refreshes_statistics:
  "\<exists>r s. saved (hf_save_registry e (update_statistics st)) = Some r
       \<and> models r = models (reg st)
       \<and> stats r = Some s
       \<and> downloaded_models s = int (length (filter is_downloaded (models r)))
       \<and> downloaded_models s + pending_models s = int (length (models r))
       \<and> total_models s = int (length (models r))"
  by (simp add: hf_save_registry_def update_statistics_def Let_def)

section \<open>The scenarios, evaluated\<close>

lemmas run_defs = md_download_model_def as_completed_def find_model_def is_downloaded_def
  get_or_def
  path_join_def files_to_download_def md_get_download_url_def md_download_file_def
  md_except_def request_headers_def raise_for_status_def stream_to_file_def base_name_def
  map_models_def md_save_registry_def ensure_status_def mark_downloaded_def empty_status_def
  whisper_tiny_def ok_response_def status_response_def remote_missing_def test_env_def
  test_stats_def test_state_def url_of_def Let_def

lemmas run_defs2 = run_defs whisper_done_def

lemmas run_defs3 = run_defs2 tokenizer_run_def tokenizer_missing_state_def

lemmas fetch_defs = md_download_file_def hf_download_file_def md_except_def
  request_headers_def raise_for_status_def stream_to_file_def base_name_def
  status_response_def ok_response_def remote_missing_def test_env_def test_state_def
  test_stats_def token_env_def status_env_def offline_env_def broken_stream_env_def
  empty_state_def mirror_url_def url_of_def Let_def

lemmas run_defs4 = run_defs3 stale_run_def empty_state_def

lemma tokenizer_run_result:
  "fst (tokenizer_run True) = FailedRequired [''tokenizer.json'']"
  by (simp add: run_defs3)

lemma tokenizer_run_saved:
  "saved (snd (tokenizer_run True)) = saved tokenizer_missing_state"
  by (simp add: run_defs3)

lemma tokenizer_run_log:
  "net_log (snd (tokenizer_run True)) = [(url_of ''tokenizer.json'', [])]"
  by (simp add: run_defs3)

lemma tokenizer_run_stats:
  "stats (reg (snd (tokenizer_run True))) = Some (test_stats 1 0)"
  by (simp add: run_defs3)

lemma tokenizer_run_unforced:
  "fst (tokenizer_run False) = AlreadyDownloaded \<and> net_log (snd (tokenizer_run False)) = []"
  by (simp add: run_defs3)

section \<open>Properties of fetching one file\<close>

text \<open>
  Claim C4, evaluated at a failing input. The server answers 200 and the body stream
  breaks after the first chunk \<^verbatim>\<open>abc\<close>. \<^verbatim>\<open>download_file\<close> of add\_new\_model.py returns
  \<^verbatim>\<open>False\<close> and leaves the truncated file \<^verbatim>\<open>abc\<close> at the destination; \<^verbatim>\<open>_download_file\<close>
  of sync\_registry\_models.py, on the same input, removes it.
\<close>

theorem C4_truncated_file_left_behind:
  "fst (hf_download_file broken_stream_env empty_state (url_of ''config.json'')
          ''models/hf/whisper-tiny/config.json'' False)
     = (False, [PrintError ''config.json'' (RequestException ''Connection broken'')])
   \<and> fs empty_state ''models/hf/whisper-tiny/config.json'' = None
   \<and> fs (snd (hf_download_file broken_stream_env empty_state (url_of ''config.json'')
                 ''models/hf/whisper-tiny/config.json'' False))
        ''models/hf/whisper-tiny/config.json'' = Some ''abc''
   \<and> fst (md_download_file broken_stream_env empty_state (url_of ''config.json'')
            ''models/hf/whisper-tiny/config.json'')
       = (False, FailedToDownload ''config.json'' (RequestException ''Connection broken''))
   \<and> fs (snd (md_download_file broken_stream_env empty_state (url_of ''config.json'')
                 ''models/hf/whisper-tiny/config.json''))
        ''models/hf/whisper-tiny/config.json'' = None"
proof -
  have "fst (hf_download_file broken_stream_env empty_state (url_of ''config.json'')
          ''models/hf/whisper-tiny/config.json'' False)
     = (False, [PrintError ''config.json'' (RequestException ''Connection broken'')])"
    by (simp add: fetch_defs)
  moreover have "fs empty_state ''models/hf/whisper-tiny/config.json'' = None"
    by (simp add: fetch_defs)
  moreover have "fs (snd (hf_download_file broken_stream_env empty_state
                 (url_of ''config.json'') ''models/hf/whisper-tiny/config.json'' False))
        ''models/hf/whisper-tiny/config.json'' = Some ''abc''"
    by (simp add: fetch_defs)
  moreover have "fst (md_download_file broken_stream_env empty_state (url_of ''config.json'')
            ''models/hf/whisper-tiny/config.json'')
       = (False, FailedToDownload ''config.json'' (RequestException ''Connection broken''))"
    by (simp add: fetch_defs)
  moreover have "fs (snd (md_download_file broken_stream_env empty_state
                 (url_of ''config.json'') ''models/hf/whisper-tiny/config.json''))
        ''models/hf/whisper-tiny/config.json'' = None"
    by (simp add: fetch_defs)
  ultimately show ?thesis by simp
qed

text \<open>
  Claim C6, evaluated at a failing input. With a token configured, the URL that the
  resolver builds for a GitHub repository named \<^verbatim>\<open>huggingface.co\<close> has the host
  \<^verbatim>\<open>raw.githubusercontent.com\<close>, yet both fetchers send the bearer token with the request:
  the test is whether the text \<^verbatim>\<open>huggingface.co\<close> occurs anywhere in the URL.
\<close>

theorem C6_token_sent_to_other_host:
  "md_get_download_url mirror_model ''model.onnx'' = Inr mirror_url
   \<and> url_host mirror_url = ''raw.githubusercontent.com''
   \<and> request_headers (hf_token token_env) mirror_url
       = [(''Authorization'', ''Bearer hf_secret'')]
   \<and> net_log (snd (md_download_file token_env empty_state mirror_url
                      ''models/github/octo/mirror/model.onnx''))
       = [(mirror_url, [(''Authorization'', ''Bearer hf_secret'')])]
   \<and> net_log (snd (hf_download_file token_env empty_state mirror_url
                      ''models/github/octo/mirror/model.onnx'' False))
       = [(mirror_url, [(''Authorization'', ''Bearer hf_secret'')])]"
proof -
  have "md_get_download_url mirror_model ''model.onnx'' = Inr mirror_url"
    by (simp add: md_get_download_url_def mirror_model_def mirror_url_def get_or_def Let_def)
  moreover have "url_host mirror_url = ''raw.githubusercontent.com''"
    by (simp add: url_host_def mirror_url_def)
  moreover have "request_headers (hf_token token_env) mirror_url
       = [(''Authorization'', ''Bearer hf_secret'')]"
    by (simp add: fetch_defs)
  moreover have "net_log (snd (md_download_file token_env empty_state mirror_url
                      ''models/github/octo/mirror/model.onnx''))
       = [(mirror_url, [(''Authorization'', ''Bearer hf_secret'')])]"
    by (simp add: fetch_defs)
  moreover have "net_log (snd (hf_download_file token_env empty_state mirror_url
                      ''models/github/octo/mirror/model.onnx'' False))
       = [(mirror_url, [(''Authorization'', ''Bearer hf_secret'')])]"
    by (simp add: fetch_defs)
  ultimately show ?thesis by simp
qed

text \<open>
  Claim C7, as the code has it. Take a response with a status from 400 to 599, the
  statuses on which \<^verbatim>\<open>raise_for_status\<close> raises. \<^verbatim>\<open>download_file\<close> of add\_new\_model.py
  returns the bare \<^verbatim>\<open>False\<close> whatever the status; a 404 differs only in the line printed
  (\<^verbatim>\<open>not found\<close>, and nothing at all with the progress bar on) from the
  \<^verbatim>\<open>HTTP <status>\<close> line of the others. \<^verbatim>\<open>_download_file\<close> of sync\_registry\_models.py,
  when it gets as far as the request, returns \<^verbatim>\<open>False\<close> with the message
  \<^verbatim>\<open>Failed to download <name>: <exception>\<close>, whose exception is the \<^verbatim>\<open>HTTPError\<close> of
  that status; and in every environment a result of \<^verbatim>\<open>_download_file\<close> whose message
  carries the \<^verbatim>\<open>HTTPError\<close> of a 404 comes from a response with status 404, so there the
  404 outcome differs from every other failure outcome.
\<close>

theorem C7_http_failure_outcomes:
  assumes resp: "remote e url (request_headers (hf_token e) url) = Response r"
      and lo: "400 \<le> status_code r" and hi: "status_code r < 600"
  shows "hf_download_file e st url dest show_progress =
           ((False,
             if status_code r = 404
             then (if show_progress then [] else [PrintNotFound (base_name dest)])
             else [PrintHttp (base_name dest) (status_code r)]),
            st\<lparr>net_log := net_log st @ [(url, request_headers (hf_token e) url)]\<rparr>)
         \<and> (if fault e dest = MkdirFails \<or> fs st dest \<noteq> None
             then net_log (snd (md_download_file e st url dest)) = net_log st
             else md_download_file e st url dest =
                    ((False, FailedToDownload (base_name dest) (HTTPError (status_code r))),
                     st\<lparr>net_log := net_log st @ [(url, request_headers (hf_token e) url)],
                        fs := (fs st)(dest := None)\<rparr>))
         \<and> (md_download_file e' st' url' dest'
               = ((False, FailedToDownload name (HTTPError 404)), st'') \<longrightarrow>
             (\<exists>r'. remote e' url' (request_headers (hf_token e') url') = Response r'
                   \<and> status_code r' = 404))"
proof (intro conjI)
  show "hf_download_file e st url dest show_progress =
           ((False,
             if status_code r = 404
             then (if show_progress then [] else [PrintNotFound (base_name dest)])
             else [PrintHttp (base_name dest) (status_code r)]),
            st\<lparr>net_log := net_log st @ [(url, request_headers (hf_token e) url)]\<rparr>)"
    using resp lo hi
    by (auto simp: hf_download_file_def raise_for_status_def Let_def)
next
  show "if fault e dest = MkdirFails \<or> fs st dest \<noteq> None
        then net_log (snd (md_download_file e st url dest)) = net_log st
        else md_download_file e st url dest =
               ((False, FailedToDownload (base_name dest) (HTTPError (status_code r))),
                st\<lparr>net_log := net_log st @ [(url, request_headers (hf_token e) url)],
                   fs := (fs st)(dest := None)\<rparr>)"
    using resp lo hi
    by (auto simp: md_download_file_def md_except_def raise_for_status_def Let_def)
next
  show "md_download_file e' st' url' dest'
          = ((False, FailedToDownload name (HTTPError 404)), st'') \<longrightarrow>
        (\<exists>r'. remote e' url' (request_headers (hf_token e') url') = Response r'
              \<and> status_code r' = 404)"
    by (rule impI) (erule md_download_file_http_error)
qed

theorem C7_http_failure_outcomes_witness:
  "remote (status_env 404) (url_of ''config.json'')
       (request_headers (hf_token (status_env 404)) (url_of ''config.json''))
     = Response (status_response 404)
   \<and> 400 \<le> status_code (status_response 404)
   \<and> status_code (status_response 404) < 600
   \<and> hf_download_file (status_env 404) empty_state (url_of ''config.json'') config_dest False
     = ((False, [PrintNotFound ''config.json'']),
        empty_state\<lparr>net_log := [(url_of ''config.json'', [])]\<rparr>)
   \<and> fst (md_download_file (status_env 404) empty_state (url_of ''config.json'') config_dest)
     = (False, FailedToDownload ''config.json'' (HTTPError 404))
   \<and> (\<exists>r'. remote (status_env 404) (url_of ''config.json'')
                (request_headers (hf_token (status_env 404)) (url_of ''config.json''))
              = Response r'
            \<and> status_code r' = 404)"
proof -
  have h1: "remote (status_env 404) (url_of ''config.json'')
       (request_headers (hf_token (status_env 404)) (url_of ''config.json''))
     = Response (status_response 404)"
    by (simp add: status_env_def test_env_def)
  have h2: "400 \<le> status_code (status_response 404)"
    by (simp add: status_response_def)
  have h3: "status_code (status_response 404) < 600"
    by (simp add: status_response_def)
  have b: "base_name config_dest = ''config.json''"
    by (simp add: base_name_def config_dest_def)
  have s: "status_code (status_response 404) = 404"
    by (simp add: status_response_def)
  have t: "request_headers (hf_token (status_env 404)) (url_of ''config.json'') = []"
    by (simp add: status_env_def test_env_def request_headers_def)
  have n: "net_log empty_state = []" "fs empty_state config_dest = None"
          "fault (status_env 404) config_dest \<noteq> MkdirFails"
    by (simp_all add: empty_state_def test_state_def status_env_def test_env_def)
  note c = C7_http_failure_outcomes [OF h1 h2 h3, of empty_state config_dest False]
  have c1: "hf_download_file (status_env 404) empty_state (url_of ''config.json'') config_dest
              False
     = ((False, [PrintNotFound ''config.json'']),
        empty_state\<lparr>net_log := [(url_of ''config.json'', [])]\<rparr>)"
    using c [THEN conjunct1] by (simp add: b s t n)
  have c2: "fst (md_download_file (status_env 404) empty_state (url_of ''config.json'')
                   config_dest)
     = (False, FailedToDownload ''config.json'' (HTTPError 404))"
    using c [THEN conjunct2, THEN conjunct1] by (simp add: b s t n)
  have h4: "md_download_file (status_env 404) empty_state (url_of ''config.json'') config_dest
              = ((False, FailedToDownload ''config.json'' (HTTPError 404)),
                 snd (md_download_file (status_env 404) empty_state (url_of ''config.json'')
                        config_dest))"
    using c2 by (metis prod.collapse)
  note c3 = mp [OF C7_http_failure_outcomes [OF h1 h2 h3, THEN conjunct2, THEN conjunct2] h4]
  show ?thesis
    apply (intro conjI)
         apply (rule h1)
        apply (rule h2)
       apply (rule h3)
      apply (rule c1)
     apply (rule c2)
    apply (rule c3)
    done
qed

text \<open>The claim as worded fails for \<^verbatim>\<open>download_file\<close> of add\_new\_model.py: to its caller
  a 404 is the same \<^verbatim>\<open>False\<close> as a 500 and as a server that cannot be reached, and with the
  progress bar on it prints nothing. It also fails for a status that is neither 2xx nor
  in 400-599: on a 300 both fetchers write the body and report success.\<close>

theorem C7_not_found_counterexample:
  "fst (fst (hf_download_file (status_env 404) empty_state (url_of ''config.json'')
               config_dest True))
     = fst (fst (hf_download_file (status_env 500) empty_state (url_of ''config.json'')
               config_dest True))
   \<and> fst (fst (hf_download_file (status_env 404) empty_state (url_of ''config.json'')
               config_dest True))
     = fst (fst (hf_download_file offline_env empty_state (url_of ''config.json'')
               config_dest True))
   \<and> fst (hf_download_file (status_env 404) empty_state (url_of ''config.json'')
            config_dest True) = (False, [])
   \<and> fst (fst (hf_download_file (status_env 300) empty_state (url_of ''config.json'')
               config_dest True)) = True
   \<and> fst (md_download_file (status_env 300) empty_state (url_of ''config.json'')
            config_dest) = (True, Downloaded ''config.json'')"
  by (simp add: fetch_defs config_dest_def)

text \<open>
  Claim C10. When the destination file exists (its parent directory therefore exists, so
  \<^verbatim>\<open>mkdir\<close> with \<^verbatim>\<open>exist_ok\<close> does not raise), \<^verbatim>\<open>_download_file\<close> returns
  \<^verbatim>\<open>(True, "Already exists: ...")\<close> and leaves the state as it was: no request is logged
  and no file is written. \<^verbatim>\<open>_download_file\<close> takes no \<^verbatim>\<open>force\<close> argument, and a run of
  \<^verbatim>\<open>download_model\<close> with any value of \<^verbatim>\<open>force\<close>, \<^verbatim>\<open>True\<close> included, keeps the content of
  such a file of the model and issues no request for its URL.
\<close>

theorem C10_existing_file_is_never_fetched:
  assumes ex: "fs st dest = Some c" and mk: "fault e dest \<noteq> MkdirFails"
  shows "md_download_file e st url dest = ((True, AlreadyExists (base_name dest)), st)
         \<and> (find_model (models (reg st)) mid = Some m
              \<and> dest = path_join (path_join (models_dir e) (m_local_path m)) f
              \<and> md_get_download_url m f = Inr u
             \<longrightarrow> fs (snd (md_download_model e st mid force inc)) dest = Some c
                 \<and> (\<exists>new. net_log (snd (md_download_model e st mid force inc))
                              = net_log st @ new
                           \<and> (\<forall>x \<in> set new. fst x \<noteq> u)))"
proof (rule conjI)
  show "md_download_file e st url dest = ((True, AlreadyExists (base_name dest)), st)"
    using ex mk by (rule md_download_file_exists)
next
  show "find_model (models (reg st)) mid = Some m
              \<and> dest = path_join (path_join (models_dir e) (m_local_path m)) f
              \<and> md_get_download_url m f = Inr u
             \<longrightarrow> fs (snd (md_download_model e st mid force inc)) dest = Some c
                 \<and> (\<exists>new. net_log (snd (md_download_model e st mid force inc))
                              = net_log st @ new
                           \<and> (\<forall>x \<in> set new. fst x \<noteq> u))"
  proof (rule impI)
  assume a: "find_model (models (reg st)) mid = Some m
              \<and> dest = path_join (path_join (models_dir e) (m_local_path m)) f
              \<and> md_get_download_url m f = Inr u"
  let ?lp = "path_join (models_dir e) (m_local_path m)"
  let ?run = "run_downloads e m ?lp (files_to_download m inc) st"
  let ?st' = "snd (md_download_model e st mid force inc)"
  have found: "find_model (models (reg st)) mid = Some m" using a by simp
  have dest: "dest = path_join ?lp f" using a by simp
  have url: "md_get_download_url m f = Inr u" using a by simp
  have keep: "fs (snd ?run) dest = Some c"
    using ex mk by (rule run_downloads_keeps)
  obtain new where n: "net_log (snd ?run) = net_log st @ new"
    and nn: "\<forall>x \<in> set new. \<exists>f' r. (f', r) \<in> set (files_to_download m inc)
           \<and> md_get_download_url m f' = Inr (fst x)
           \<and> fs st (path_join ?lp f') = None
           \<and> fault e (path_join ?lp f') \<noteq> MkdirFails"
    using run_downloads_log [of e m ?lp "files_to_download m inc" st] by blast
  have fresh: "\<forall>x \<in> set new. fst x \<noteq> u"
  proof
    fix x assume "x \<in> set new"
    then obtain f' where u': "md_get_download_url m f' = Inr (fst x)"
      and none: "fs st (path_join ?lp f') = None"
      using nn by blast
    show "fst x \<noteq> u"
    proof
      assume "fst x = u"
      then have "f' = f" using u' url by (metis url_injective)
      then show False using none ex dest by simp
    qed
  qed
  from md_download_model_state [OF found, of e force inc]
  show "fs ?st' dest = Some c
        \<and> (\<exists>new. net_log ?st' = net_log st @ new \<and> (\<forall>x \<in> set new. fst x \<noteq> u))"
  proof
    assume "fs ?st' = fs st \<and> net_log ?st' = net_log st"
    then have "fs ?st' dest = Some c" "net_log ?st' = net_log st @ []"
      using ex by simp_all
    then show ?thesis by (metis empty_iff list.set(1))
  next
    assume "fs ?st' = fs (snd ?run) \<and> net_log ?st' = net_log (snd ?run)"
    then have "fs ?st' dest = Some c" "net_log ?st' = net_log st @ new"
      using keep n by simp_all
    then show ?thesis using fresh by blast
  qed
  qed
qed

theorem C10_existing_file_is_never_fetched_witness:
  "fs tokenizer_missing_state config_dest = Some ''{}''
   \<and> fault (test_env [url_of ''tokenizer.json'']) config_dest \<noteq> MkdirFails
   \<and> find_model (models (reg tokenizer_missing_state)) ''whisper-tiny'' = Some whisper_done
   \<and> config_dest
       = path_join (path_join (models_dir (test_env [url_of ''tokenizer.json'']))
                      (m_local_path whisper_done)) ''config.json''
   \<and> md_get_download_url whisper_done ''config.json'' = Inr (url_of ''config.json'')
   \<and> md_download_file (test_env [url_of ''tokenizer.json'']) tokenizer_missing_state
        (url_of ''config.json'') config_dest
      = ((True, AlreadyExists ''config.json''), tokenizer_missing_state)
   \<and> fs (snd (tokenizer_run True)) config_dest = Some ''{}''
   \<and> (\<exists>new. net_log (snd (tokenizer_run True)) = net_log tokenizer_missing_state @ new
          \<and> (\<forall>x \<in> set new. fst x \<noteq> url_of ''config.json''))"
proof -
  have h1: "fs tokenizer_missing_state config_dest = Some ''{}''"
    by (simp add: tokenizer_missing_state_def test_state_def config_dest_def)
  have h2: "fault (test_env [url_of ''tokenizer.json'']) config_dest \<noteq> MkdirFails"
    by (simp add: test_env_def)
  have h3: "find_model (models (reg tokenizer_missing_state)) ''whisper-tiny''
              = Some whisper_done"
    by (simp add: run_defs3)
  have h4: "config_dest
       = path_join (path_join (models_dir (test_env [url_of ''tokenizer.json'']))
                      (m_local_path whisper_done)) ''config.json''"
    by (simp add: run_defs3 config_dest_def)
  have h5: "md_get_download_url whisper_done ''config.json'' = Inr (url_of ''config.json'')"
    by (simp add: run_defs3)
  have b: "base_name config_dest = ''config.json''"
    by (simp add: base_name_def config_dest_def)
  note c = C10_existing_file_is_never_fetched [OF h1 h2, of "url_of ''config.json''"
             "''whisper-tiny''" whisper_done "''config.json''" "url_of ''config.json''"
             True False]
  have c1: "md_download_file (test_env [url_of ''tokenizer.json'']) tokenizer_missing_state
        (url_of ''config.json'') config_dest
      = ((True, AlreadyExists ''config.json''), tokenizer_missing_state)"
    using c [THEN conjunct1] by (simp only: b)
  have pre: "find_model (models (reg tokenizer_missing_state)) ''whisper-tiny''
               = Some whisper_done
             \<and> config_dest
                 = path_join (path_join (models_dir (test_env [url_of ''tokenizer.json'']))
                      (m_local_path whisper_done)) ''config.json''
             \<and> md_get_download_url whisper_done ''config.json''
                 = Inr (url_of ''config.json'')"
    using h3 h4 h5 by (intro conjI)
  note c2 = mp [OF c [THEN conjunct2] pre]
  show ?thesis
    unfolding tokenizer_run_def
    apply (intro conjI)
           apply (rule h1)
          apply (rule h2)
         apply (rule h3)
        apply (rule h4)
       apply (rule h5)
      apply (rule c1)
     apply (rule c2 [THEN conjunct1])
    apply (rule c2 [THEN conjunct2])
    done
qed

section \<open>Properties of a synchronisation run\<close>

text \<open>
  Claim C1, evaluated at a failing input. The registry lists one pending model and
  statistics that agree with it (0 downloaded, 1 pending). \<^verbatim>\<open>download_model\<close> of
  sync\_registry\_models.py fetches both files, marks the model downloaded and persists:
  the document written says the model is downloaded while its statistics still count 0
  downloaded and 1 pending. Recomputing them from the models gives 1 and 0.
\<close>

theorem C1_sync_persists_stale_statistics:
  "fst stale_run = Success 2 2
   \<and> map_option (\<lambda>r. map is_downloaded (models r)) (saved (snd stale_run)) = Some [True]
   \<and> map_option stats (saved (snd stale_run))
       = Some (Some \<lparr> total_models = 1, by_type = [(''asr'', 1)],
                       by_source = [(''huggingface'', 1)], downloaded_models = 0,
                       pending_models = 1, total_size_mb = 39 \<rparr>)
   \<and> map_option downloaded_models (stats (reg (update_statistics (snd stale_run)))) = Some 1
   \<and> map_option pending_models (stats (reg (update_statistics (snd stale_run)))) = Some 0"
proof -
  have a: "fst stale_run = Success 2 2"
    by (simp add: run_defs4)
  have b: "saved (snd stale_run) = Some (reg (snd stale_run))"
    by (simp add: run_defs4)
  have c: "models (reg (snd stale_run)) = [mark_downloaded ''2024-06-01'' whisper_tiny]"
    by (simp add: run_defs4)
  have d: "stats (reg (snd stale_run)) = Some (test_stats 0 1)"
    by (simp add: run_defs4)
  have e: "map_option downloaded_models (stats (reg (update_statistics (snd stale_run)))) = Some 1"
          "map_option pending_models (stats (reg (update_statistics (snd stale_run)))) = Some 0"
    by (simp_all add: update_statistics_def Let_def c)
  show ?thesis
    using a e by (simp add: b c d test_stats_def)
qed

text \<open>
  Claim C2. Take a run of \<^verbatim>\<open>download_model\<close> that reaches the fetch stage: the model is
  found and carries the \<^verbatim>\<open>type\<close> key its header prints, the short-circuit does not apply,
  its directory can be made, the task list is not empty, the worker count is positive and
  the platform is one the resolver knows. Then every task is fetched, and the run returns
  \<^verbatim>\<open>True\<close> (Complete) if and only if no required file failed; otherwise it is Failed and
  reports the failed required files, one entry for each failed required fetch, in the
  order the fetches completed. Only outcomes tagged required enter that list, so a failed
  optional file changes nothing, and the verdict and the set of reported names are the
  same in whatever order the futures complete.
\<close>

theorem C2_complete_iff_no_required_failure:
  assumes found: "find_model (models (reg st)) mid = Some m"
      and typed: "m_type m \<noteq> None"
      and go: "force \<or> \<not> is_downloaded m"
      and dir: "fault e (path_join (models_dir e) (m_local_path m)) \<noteq> MkdirFails"
      and files: "files_to_download m inc \<noteq> []"
      and workers: "0 < max_workers e"
      and plat: "supported m"
  shows "\<exists>outs st1.
           run_downloads e m (path_join (models_dir e) (m_local_path m))
             (files_to_download m inc) st = (Inr outs, st1)
           \<and> map task_of outs = files_to_download m inc
           \<and> (returns (fst (md_download_model e st mid force inc)) = Some True)
               = ({f. \<exists>msg. (f, True, False, msg) \<in> set outs} = {})
           \<and> fst (md_download_model e st mid force inc) =
               (if {f. \<exists>msg. (f, True, False, msg) \<in> set outs} = {}
                then Success (length (filter succeeded outs)) (length outs)
                else FailedRequired (failed_required (as_completed e outs)))
           \<and> set (failed_required (as_completed e outs))
               = {f. \<exists>msg. (f, True, False, msg) \<in> set outs}
           \<and> length (failed_required (as_completed e outs))
               = length (filter (\<lambda>out. fst (snd out) \<and> \<not> succeeded out) outs)
           \<and> (\<forall>outs'. set outs' = set outs \<longrightarrow>
                 (snd (collect_results outs' (0, [])) = []) = (failed_required outs = [])
                 \<and> set (snd (collect_results outs' (0, []))) = set (failed_required outs))"
proof -
  obtain outs st1 where run:
    "run_downloads e m (path_join (models_dir e) (m_local_path m))
       (files_to_download m inc) st = (Inr outs, st1)"
    and tasks: "map task_of outs = files_to_download m inc"
    using run_downloads_total [OF plat] by blast
  have len: "length outs = length (files_to_download m inc)"
    using tasks by (metis length_map)
  have e: "(failed_required outs = []) = ({f. \<exists>msg. (f, True, False, msg) \<in> set outs} = {})"
    using failed_required_set [of outs] by (metis set_empty)
  have r: "md_download_model e st mid force inc =
           (if failed_required outs = [] then
              (Success (length (filter succeeded outs)) (length (files_to_download m inc)),
               md_save_registry
                 (map_models (update_first (\<lambda>x. m_id x = mid) (mark_downloaded (today e)))
                    (map_models (update_first (\<lambda>x. m_id x = mid) ensure_status) st1)))
            else
              (FailedRequired (failed_required (as_completed e outs)),
               map_models (update_first (\<lambda>x. m_id x = mid) ensure_status) st1))"
    by (rule md_download_model_fetch_stage [OF found typed go dir files workers run])
  have perm: "\<forall>outs'. set outs' = set outs \<longrightarrow>
                 (snd (collect_results outs' (0, [])) = []) = (failed_required outs = [])
                 \<and> set (snd (collect_results outs' (0, []))) = set (failed_required outs)"
  proof (intro allI impI)
    fix outs' :: "outcome list"
    assume s: "set outs' = set outs"
    have "set (failed_required outs') = set (failed_required outs)"
      by (simp add: failed_required_set s)
    moreover have c: "snd (collect_results outs' (0, [])) = failed_required outs'"
      by (simp add: collect_results_spec)
    ultimately have "set (snd (collect_results outs' (0, []))) = set (failed_required outs)"
      by simp
    moreover from this have "(snd (collect_results outs' (0, [])) = []) = (failed_required outs = [])"
      using set_empty by metis
    ultimately show "(snd (collect_results outs' (0, [])) = []) = (failed_required outs = [])
                 \<and> set (snd (collect_results outs' (0, []))) = set (failed_required outs)"
      by simp
  qed
  have a: "(returns (fst (md_download_model e st mid force inc)) = Some True)
               = ({f. \<exists>msg. (f, True, False, msg) \<in> set outs} = {})"
    using e by (simp add: r)
  have b: "fst (md_download_model e st mid force inc) =
               (if {f. \<exists>msg. (f, True, False, msg) \<in> set outs} = {}
                then Success (length (filter succeeded outs)) (length outs)
                else FailedRequired (failed_required (as_completed e outs)))"
    using e by (simp add: r len)
  have s: "set (failed_required (as_completed e outs))
               = {f. \<exists>msg. (f, True, False, msg) \<in> set outs}"
    by (rule trans [OF failed_required_as_completed(1) failed_required_set])
  have l: "length (failed_required (as_completed e outs))
               = length (filter (\<lambda>out. fst (snd out) \<and> \<not> succeeded out) outs)"
    by (simp add: failed_required_as_completed(3)) (simp add: failed_required_def)
  show ?thesis
    apply (rule exI [of _ outs])
    apply (rule exI [of _ st1])
    apply (intro conjI)
          apply (rule run)
         apply (rule tasks)
        apply (rule a)
       apply (rule b)
      apply (rule s)
     apply (rule l)
    apply (rule perm)
    done
qed

theorem C2_complete_iff_no_required_failure_witness:
  "find_model (models (reg empty_state)) ''whisper-tiny'' = Some whisper_tiny
   \<and> m_type whisper_tiny \<noteq> None
   \<and> \<not> is_downloaded whisper_tiny
   \<and> fault (test_env [url_of ''normalizer.json''])
         (path_join (models_dir (test_env [url_of ''normalizer.json'']))
            (m_local_path whisper_tiny)) \<noteq> MkdirFails
   \<and> files_to_download whisper_tiny True \<noteq> []
   \<and> 0 < max_workers (test_env [url_of ''normalizer.json''])
   \<and> supported whisper_tiny
   \<and> fst (md_download_model (test_env [url_of ''normalizer.json'']) empty_state
            ''whisper-tiny'' False True)
       = Success 2 3
   \<and> fst (md_download_model (test_env [url_of ''tokenizer.json'']) empty_state
            ''whisper-tiny'' False True)
       = FailedRequired [''tokenizer.json'']
   \<and> fst (md_download_model last_first_env empty_state ''whisper-tiny'' False True)
       = FailedRequired [''tokenizer.json'', ''config.json'']"
proof -
  have h1: "find_model (models (reg empty_state)) ''whisper-tiny'' = Some whisper_tiny"
    by (simp add: run_defs empty_state_def)
  have h2: "m_type whisper_tiny \<noteq> None"
    by (simp add: whisper_tiny_def)
  have h3: "False \<or> \<not> is_downloaded whisper_tiny"
    by (simp add: run_defs)
  have h4: "fault (test_env [url_of ''normalizer.json''])
         (path_join (models_dir (test_env [url_of ''normalizer.json'']))
            (m_local_path whisper_tiny)) \<noteq> MkdirFails"
    by (simp add: test_env_def)
  have h5: "files_to_download whisper_tiny True \<noteq> []"
    by (simp add: run_defs)
  have h6: "0 < max_workers (test_env [url_of ''normalizer.json''])"
    by (simp add: test_env_def)
  have h7: "supported whisper_tiny"
    by (simp add: supported_def whisper_tiny_def)
  obtain outs st1 where
    run: "run_downloads (test_env [url_of ''normalizer.json'']) whisper_tiny
            (path_join (models_dir (test_env [url_of ''normalizer.json'']))
               (m_local_path whisper_tiny))
            (files_to_download whisper_tiny True) empty_state = (Inr outs, st1)"
    and res: "fst (md_download_model (test_env [url_of ''normalizer.json'']) empty_state
                ''whisper-tiny'' False True) =
               (if {f. \<exists>msg. (f, True, False, msg) \<in> set outs} = {}
                then Success (length (filter succeeded outs)) (length outs)
                else FailedRequired
                       (failed_required (as_completed (test_env [url_of ''normalizer.json''])
                          outs)))"
    using C2_complete_iff_no_required_failure [OF h1 h2 h3 h4 h5 h6 h7] by blast
  have outs: "outs = [(''config.json'', True, True, Downloaded ''config.json''),
                      (''tokenizer.json'', True, True, Downloaded ''tokenizer.json''),
                      (''normalizer.json'', False, False,
                         FailedToDownload ''normalizer.json'' (HTTPError 404))]"
    using run by (simp add: run_defs empty_state_def)
  have a: "fst (md_download_model (test_env [url_of ''normalizer.json'']) empty_state
            ''whisper-tiny'' False True)
       = Success 2 3"
    unfolding res by (simp add: outs succeeded_def)
  have b: "fst (md_download_model (test_env [url_of ''tokenizer.json'']) empty_state
            ''whisper-tiny'' False True)
       = FailedRequired [''tokenizer.json'']"
    by (simp add: run_defs empty_state_def)
  have c: "fst (md_download_model last_first_env empty_state ''whisper-tiny'' False True)
       = FailedRequired [''tokenizer.json'', ''config.json'']"
    by (simp add: run_defs empty_state_def last_first_env_def)
  show ?thesis using h1 h2 h3 h4 h5 h6 h7 a b c by simp
qed

text \<open>
  Claim C5. When the model is found, carries the \<^verbatim>\<open>type\<close> key the header prints, and its
  \<^verbatim>\<open>status.downloaded\<close> is true, a run with \<^verbatim>\<open>force = False\<close> returns \<^verbatim>\<open>True\<close> and leaves
  the whole state as it was: no request is added to the log, no file changes, and the
  registry document on disk and in memory stays identical (the code does not even touch
  \<^verbatim>\<open>last_updated\<close>). Hence after any run that returned \<^verbatim>\<open>True\<close>, with whatever flags and
  environment, a further run with \<^verbatim>\<open>force = False\<close> is such a no-op.
\<close>

theorem C5_downloaded_model_is_noop:
  "(find_model (models (reg st)) mid = Some m \<and> m_type m \<noteq> None \<and> is_downloaded m \<longrightarrow>
      md_download_model e st mid False inc = (AlreadyDownloaded, st)
      \<and> returns (fst (md_download_model e st mid False inc)) = Some True)
   \<and> (md_download_model e st mid force inc = (r, st') \<and> returns r = Some True \<longrightarrow>
      md_download_model e' st' mid False inc' = (AlreadyDownloaded, st'))"
proof (intro conjI impI)
  assume a: "find_model (models (reg st)) mid = Some m \<and> m_type m \<noteq> None \<and> is_downloaded m"
  then show "md_download_model e st mid False inc = (AlreadyDownloaded, st)"
    by (simp add: md_download_model_short_circuit)
  then show "returns (fst (md_download_model e st mid False inc)) = Some True"
    by simp
next
  assume a: "md_download_model e st mid force inc = (r, st') \<and> returns r = Some True"
  then obtain m where found: "find_model (models (reg st)) mid = Some m"
    and typed: "m_type m \<noteq> None"
    and cases: "(r = AlreadyDownloaded \<and> st' = st \<and> \<not> force \<and> is_downloaded m)
              \<or> (\<exists>outs st1.
                   run_downloads e m (path_join (models_dir e) (m_local_path m))
                     (files_to_download m inc) st = (Inr outs, st1)
                   \<and> failed_required outs = []
                   \<and> r = Success (length (filter succeeded outs))
                             (length (files_to_download m inc))
                   \<and> st' = md_save_registry
                       (map_models
                          (update_first (\<lambda>x. m_id x = mid) (mark_downloaded (today e)))
                          (map_models (update_first (\<lambda>x. m_id x = mid) ensure_status) st1)))"
    using md_download_model_true_inv [of e st mid force inc r st'] by blast
  from cases show "md_download_model e' st' mid False inc' = (AlreadyDownloaded, st')"
  proof
    assume "r = AlreadyDownloaded \<and> st' = st \<and> \<not> force \<and> is_downloaded m"
    then show ?thesis using found typed by (simp add: md_download_model_short_circuit)
  next
    assume "\<exists>outs st1.
                   run_downloads e m (path_join (models_dir e) (m_local_path m))
                     (files_to_download m inc) st = (Inr outs, st1)
                   \<and> failed_required outs = []
                   \<and> r = Success (length (filter succeeded outs))
                             (length (files_to_download m inc))
                   \<and> st' = md_save_registry
                       (map_models
                          (update_first (\<lambda>x. m_id x = mid) (mark_downloaded (today e)))
                          (map_models (update_first (\<lambda>x. m_id x = mid) ensure_status) st1))"
    then obtain outs st1 where
      run: "run_downloads e m (path_join (models_dir e) (m_local_path m))
                     (files_to_download m inc) st = (Inr outs, st1)"
      and st': "st' = md_save_registry
                       (map_models
                          (update_first (\<lambda>x. m_id x = mid) (mark_downloaded (today e)))
                          (map_models (update_first (\<lambda>x. m_id x = mid) ensure_status) st1))"
      by blast
    have "reg st1 = reg st"
      using run_downloads_reg [of e m "path_join (models_dir e) (m_local_path m)"
               "files_to_download m inc" st] run by simp
    then have "models (reg st') =
                 update_first (\<lambda>x. m_id x = mid) (mark_downloaded (today e))
                   (update_first (\<lambda>x. m_id x = mid) ensure_status (models (reg st)))"
      by (simp add: st' md_save_registry_def map_models_def)
    then have f: "find_model (models (reg st')) mid
                 = Some (mark_downloaded (today e) (ensure_status m))"
      using find_model_after_mark [OF found] by simp
    have t: "m_type (mark_downloaded (today e) (ensure_status m)) \<noteq> None"
      using typed by (simp add: mark_downloaded_def ensure_status_def split: option.splits)
    show ?thesis
      using f t by (rule md_download_model_short_circuit) simp
  qed
qed

theorem C5_downloaded_model_is_noop_witness:
  "find_model (models (reg (test_state [whisper_done] (test_stats 1 0) []))) ''whisper-tiny''
     = Some whisper_done
   \<and> m_type whisper_done \<noteq> None
   \<and> is_downloaded whisper_done
   \<and> md_download_model (test_env []) (test_state [whisper_done] (test_stats 1 0) [])
       ''whisper-tiny'' False True
     = (AlreadyDownloaded, test_state [whisper_done] (test_stats 1 0) [])
   \<and> returns (fst (md_download_model (test_env [])
          (test_state [whisper_tiny] (test_stats 0 1) []) ''whisper-tiny'' False False))
       = Some True
   \<and> md_download_model (test_env [])
       (snd (md_download_model (test_env [])
          (test_state [whisper_tiny] (test_stats 0 1) []) ''whisper-tiny'' False False))
       ''whisper-tiny'' False False
     = (AlreadyDownloaded,
        snd (md_download_model (test_env [])
          (test_state [whisper_tiny] (test_stats 0 1) []) ''whisper-tiny'' False False))"
proof -
  have h1: "find_model (models (reg (test_state [whisper_done] (test_stats 1 0) [])))
              ''whisper-tiny'' = Some whisper_done"
    by (simp add: run_defs2)
  have h2: "is_downloaded whisper_done"
    by (simp add: whisper_done_def)
  have h0: "m_type whisper_done \<noteq> None"
    by (simp add: whisper_done_def mark_downloaded_def whisper_tiny_def)
  have h3: "returns (fst (md_download_model (test_env [])
          (test_state [whisper_tiny] (test_stats 0 1) []) ''whisper-tiny'' False False))
       = Some True"
    by (simp add: run_defs2)
  have h4: "md_download_model (test_env [])
          (test_state [whisper_tiny] (test_stats 0 1) []) ''whisper-tiny'' False False
        = (fst (md_download_model (test_env [])
          (test_state [whisper_tiny] (test_stats 0 1) []) ''whisper-tiny'' False False),
           snd (md_download_model (test_env [])
          (test_state [whisper_tiny] (test_stats 0 1) []) ''whisper-tiny'' False False))"
    by simp
  note inst1 = C5_downloaded_model_is_noop
               [where st = "test_state [whisper_done] (test_stats 1 0) []"
                  and mid = "''whisper-tiny''" and m = whisper_done and e = "test_env []"
                  and inc = True, THEN conjunct1]
  note inst2 = C5_downloaded_model_is_noop
               [where st = "test_state [whisper_tiny] (test_stats 0 1) []"
                  and mid = "''whisper-tiny''" and e = "test_env []"
                  and inc = False and force = False and e' = "test_env []" and inc' = False,
                THEN conjunct2]
  show ?thesis
    using inst1 inst2 h0 h1 h2 h3 h4 by blast
qed

text \<open>
  Claim C8, as the code has it. A run that reports Failed names at least one failed
  required file and returns \<^verbatim>\<open>False\<close>; it writes nothing to the registry file and changes
  neither the statistics nor \<^verbatim>\<open>last_updated\<close>; in memory the only change is an empty
  \<^verbatim>\<open>status\<close> for a record that had none, so every model's \<^verbatim>\<open>downloaded\<close> flag keeps its
  value and a flag that was true stays true. Statistics are not recomputed.
\<close>

theorem C8_failed_run_persists_nothing:
  assumes "md_download_model e st mid force inc = (FailedRequired names, st')"
  shows "names \<noteq> []
         \<and> returns (FailedRequired names) = Some False
         \<and> saved st' = saved st
         \<and> stats (reg st') = stats (reg st)
         \<and> last_updated (reg st') = last_updated (reg st)
         \<and> models (reg st') =
             update_first (\<lambda>x. m_id x = mid) ensure_status (models (reg st))
         \<and> map is_downloaded (models (reg st')) = map is_downloaded (models (reg st))"
proof -
  obtain m outs st1 where
    run: "run_downloads e m (path_join (models_dir e) (m_local_path m))
                (files_to_download m inc) st = (Inr outs, st1)"
    and names: "names \<noteq> []"
    and st': "st' = map_models (update_first (\<lambda>x. m_id x = mid) ensure_status) st1"
    using md_download_model_failed_inv [OF assms] by blast
  have keep: "reg st1 = reg st" "saved st1 = saved st"
    using run_downloads_reg [of e m "path_join (models_dir e) (m_local_path m)"
               "files_to_download m inc" st] run by simp_all
  have ms: "models (reg st') =
             update_first (\<lambda>x. m_id x = mid) ensure_status (models (reg st))"
    by (simp add: st' map_models_def keep)
  show ?thesis
    using names by (simp add: ms map_update_first_ensure) (simp add: st' map_models_def keep)
qed

theorem C8_failed_run_persists_nothing_witness:
  "tokenizer_run True = (FailedRequired [''tokenizer.json''], snd (tokenizer_run True))
   \<and> saved (snd (tokenizer_run True)) = saved tokenizer_missing_state
   \<and> stats (reg (snd (tokenizer_run True))) = stats (reg tokenizer_missing_state)
   \<and> map is_downloaded (models (reg (snd (tokenizer_run True)))) = [True]"
proof -
  have r: "tokenizer_run True = (FailedRequired [''tokenizer.json''], snd (tokenizer_run True))"
    using tokenizer_run_result by (metis prod.collapse)
  then have h: "md_download_model (test_env [url_of ''tokenizer.json'']) tokenizer_missing_state
             ''whisper-tiny'' True False
           = (FailedRequired [''tokenizer.json''], snd (tokenizer_run True))"
    by (simp only: tokenizer_run_def)
  have i: "map is_downloaded (models (reg tokenizer_missing_state)) = [True]"
    by (simp add: tokenizer_missing_state_def test_state_def whisper_done_def)
  note c = C8_failed_run_persists_nothing [OF h]
  have d: "map is_downloaded (models (reg (snd (tokenizer_run True)))) = [True]"
    using c i by metis
  have s: "saved (snd (tokenizer_run True)) = saved tokenizer_missing_state"
          "stats (reg (snd (tokenizer_run True))) = stats (reg tokenizer_missing_state)"
    using c by blast+
  show ?thesis
    using r d s by blast
qed

text \<open>The scenario of the claim: the model is marked downloaded, \<^verbatim>\<open>tokenizer.json\<close> is
  gone from disk and the server answers 404. The forced run reports Failed naming that
  file; \<^verbatim>\<open>pending_models\<close> is 0 before and 0 after, and the registry file is not written.
  Without \<^verbatim>\<open>force\<close> the run does not fetch at all and reports success.\<close>

theorem C8_pending_models_counterexample:
  "fst (tokenizer_run True) = FailedRequired [''tokenizer.json'']
   \<and> map_option pending_models (stats (reg tokenizer_missing_state)) = Some 0
   \<and> map_option pending_models (stats (reg (snd (tokenizer_run True)))) = Some 0
   \<and> saved (snd (tokenizer_run True)) = saved tokenizer_missing_state
   \<and> fst (tokenizer_run False) = AlreadyDownloaded"
proof -
  have "map_option pending_models (stats (reg tokenizer_missing_state)) = Some 0"
    by (simp add: tokenizer_missing_state_def test_state_def test_stats_def)
  moreover have "map_option pending_models (stats (reg (snd (tokenizer_run True)))) = Some 0"
    by (simp add: tokenizer_run_stats test_stats_def)
  ultimately show ?thesis
    using tokenizer_run_result tokenizer_run_saved tokenizer_run_unforced by simp
qed

end
